theory Spec2Isabelle
  imports Complex_Main
begin

section \<open>The bridge chart of ponte: data model\<close>

text \<open>
  The class \<open>Bridge\<close> of \<open>src/ponte/bridge.py\<close> keeps a list of layers, the segment
  labels, their count and the mask of total segments, and redraws a matplotlib axes
  object after every added layer.  The embedding keeps the attributes under their
  names.  The axes object is the record of what has been drawn on it since it was
  last cleared: the tick positions, the tick labels and the list of \<open>bar\<close> calls
  with their arguments, so the bottoms handed to the renderer can be read back.

  Matplotlib is not part of the repository.  Its method \<open>Axes.bar\<close> raises an
  exception for keyword arguments it does not accept; which ones it accepts is a
  parameter of this development, carried by the axes object whose method it is:
  \<open>bar_raises a kw\<close> is the exception raised for the keyword arguments \<open>kw\<close>, and
  \<open>None\<close> when they are accepted.

  A layer's values are a numpy array of float64.  An entry is the NaN sentinel, one
  of the two infinities, or a finite number.  Finite numbers are taken as reals and
  added exactly: the rounding and the overflow of float64 addition are outside this
  development, and every sum below is written in the order in which the code adds.
  The attribute \<open>values\<close> of a layer is the field \<open>values_of\<close>; the methods
  \<open>__init__\<close>, \<open>_plot\<close> and \<open>_calc_bottom\<close> are \<open>init\<close>, \<open>plot\<close> and
  \<open>calc_bottom\<close>.
\<close>

datatype fval = NaN | PInf | NInf | Num real

datatype error = ValueError string | TypeError string | AttributeError string

record 'k layer =
  values_of :: "fval list"
  bar_args :: 'k

record 'k bar_call =
  bar_x :: "nat list"
  bar_height :: "fval list"
  bar_bottom :: "real list"
  bar_kwargs :: 'k

record 'k axes =
  xticks :: "nat list"
  xticklabels :: "string list"
  bars :: "'k bar_call list"
  bar_raises :: "'k \<Rightarrow> error option"

record 'k bridge =
  layers :: "'k layer list"
  segment_labels :: "string list"
  segment_count :: nat
  total_segments :: "bool list"
  ax :: "'k axes"

subsection \<open>numpy and matplotlib operations used by the class\<close>

text \<open>
  \<open>np.nan_to_num\<close> on one entry, and on an array: NaN becomes 0, and the infinities
  become the largest and the smallest finite float64, \<open>\<plusminus>1.7976931348623157e308\<close>.
\<close>

definition float_max :: real where
  "float_max = 2 ^ 1024 - 2 ^ 971"

fun nan_to_num1 :: "fval \<Rightarrow> real" where
  "nan_to_num1 NaN = 0"
| "nan_to_num1 PInf = float_max"
| "nan_to_num1 NInf = - float_max"
| "nan_to_num1 (Num x) = x"

definition nan_to_num :: "fval list \<Rightarrow> real list" where
  "nan_to_num a = map nan_to_num1 a"

text \<open>\<open>np.insert(a, 0, 0)[:-1]\<close>: a zero in front, the last entry dropped.\<close>

definition insert0_drop_last :: "real list \<Rightarrow> real list" where
  "insert0_drop_last a = butlast (0 # a)"

text \<open>The comprehension \<open>[x + y for x, y in zip(xs, ys)]\<close>; \<open>zip\<close> stops at the shorter list.\<close>

definition zip_add :: "real list \<Rightarrow> real list \<Rightarrow> real list" where
  "zip_add xs ys = map (\<lambda>(x, y). x + y) (zip xs ys)"

text \<open>
  \<open>plt.subplots\<close> gives a new axes object, \<open>clear\<close> empties it, and \<open>bar\<close> either
  raises and draws nothing or records the call.
\<close>

definition subplots :: "('k \<Rightarrow> error option) \<Rightarrow> 'k axes" where
  "subplots raises = \<lparr>xticks = [], xticklabels = [], bars = [], bar_raises = raises\<rparr>"

definition clear :: "'k axes \<Rightarrow> 'k axes" where
  "clear a = \<lparr>xticks = [], xticklabels = [], bars = [], bar_raises = bar_raises a\<rparr>"

definition set_xticks :: "nat list \<Rightarrow> 'k axes \<Rightarrow> 'k axes" where
  "set_xticks ts a = a\<lparr>xticks := ts\<rparr>"

definition set_xticklabels :: "string list \<Rightarrow> 'k axes \<Rightarrow> 'k axes" where
  "set_xticklabels ls a = a\<lparr>xticklabels := ls\<rparr>"

definition bar :: "nat list \<Rightarrow> fval list \<Rightarrow> real list \<Rightarrow> 'k \<Rightarrow> 'k axes \<Rightarrow> error + 'k axes" where
  "bar x height bottom kw a =
     (case bar_raises a kw of
        Some e \<Rightarrow> Inl e
      | None \<Rightarrow> Inr (a\<lparr>bars := bars a @
          [\<lparr>bar_x = x, bar_height = height, bar_bottom = bottom, bar_kwargs = kw\<rparr>]\<rparr>))"

subsection \<open>\<open>Bridge._calc_bottom\<close>\<close>

text \<open>
  The method copies its argument first, and \<open>np.nan_to_num\<close>, \<open>np.insert\<close> and the
  slice each give a new array: nothing is written to the array of the caller, and the
  embedding passes it by value.

  The loop over \<open>zip(self.total_segments, bottom_step1, segment_tops)\<close> has as its
  state the pair of \<open>cumulative_b\<close> and \<open>bottom_step2\<close>.
\<close>

fun calc_loop :: "(bool \<times> real \<times> real) list \<Rightarrow> real \<times> real list \<Rightarrow> real \<times> real list" where
  "calc_loop [] (cumulative_b, bottom_step2) = (cumulative_b, bottom_step2)"
| "calc_loop ((total_segment, b, st) # rest) (cumulative_b, bottom_step2) =
     (if total_segment
      then calc_loop rest (st, bottom_step2 @ [st])
      else calc_loop rest (cumulative_b + b, bottom_step2 @ [cumulative_b + b]))"

definition calc_bottom :: "'k bridge \<Rightarrow> fval list \<Rightarrow> real list \<Rightarrow> real list" where
  "calc_bottom self segment_values segment_tops =
     (let segment_values1 = nan_to_num segment_values;
          segment_values2 = insert0_drop_last segment_values1;
          bottom_step1 = zip_add segment_tops segment_values2
      in snd (calc_loop (zip (total_segments self) (zip bottom_step1 segment_tops)) (0, [])))"

subsection \<open>\<open>Bridge._plot\<close>\<close>

text \<open>
  The loop over \<open>self.layers\<close>.  Its state is \<open>segment_tops\<close> and the axes drawn so
  far.  An exception of \<open>bar\<close> ends the loop and the method: the result is the
  exception, if any, with the state as it then is.
\<close>

fun plot_loop ::
  "'k bridge \<Rightarrow> 'k layer list \<Rightarrow> real list \<times> 'k axes \<Rightarrow> error option \<times> real list \<times> 'k axes" where
  "plot_loop self [] (segment_tops, a) = (None, segment_tops, a)"
| "plot_loop self (layer # rest) (segment_tops, a) =
     (let vals = values_of layer;
          bottom = calc_bottom self vals segment_tops
      in case bar [0..<segment_count self] vals bottom (bar_args layer) a of
           Inl e \<Rightarrow> (Some e, segment_tops, a)
         | Inr a' \<Rightarrow> plot_loop self rest (zip_add segment_tops (nan_to_num vals), a'))"

definition plot :: "'k bridge \<Rightarrow> error option \<times> 'k bridge" where
  "plot self =
     (let a1 = clear (ax self);
          a2 = set_xticks [0..<length (segment_labels self)] a1;
          a3 = set_xticklabels (segment_labels self) a2;
          segment_tops = replicate (segment_count self) 0
      in case plot_loop self (layers self) (segment_tops, a3) of
           (r, segment_tops', a) \<Rightarrow> (r, self\<lparr>ax := a\<rparr>))"

text \<open>
  \<open>segment_tops\<close> as the loop holds it when it reaches the layer at position \<open>k\<close>:
  the zeros it starts from, updated with each of the \<open>k\<close> layers below in turn.
\<close>

definition tops_before :: "'k bridge \<Rightarrow> nat \<Rightarrow> real list" where
  "tops_before self k =
     foldl (\<lambda>segment_tops layer. zip_add segment_tops (nan_to_num (values_of layer)))
       (replicate (segment_count self) 0) (take k (layers self))"

subsection \<open>\<open>Bridge.__init__\<close> and \<open>Bridge.add_layer\<close>\<close>

text \<open>
  The argument \<open>total_segments\<close> is \<open>None\<close> or a list.  Python's truth value of it is
  false for \<open>None\<close> and for the empty list; \<open>a or b\<close> is \<open>a\<close> when \<open>a\<close> is true and
  \<open>b\<close> otherwise.
\<close>

definition py_or :: "bool list option \<Rightarrow> bool list \<Rightarrow> bool list" where
  "py_or v d = (case v of None \<Rightarrow> d | Some ts \<Rightarrow> if ts \<noteq> [] then ts else d)"

text \<open>
  The test \<open>total_segments and len(segment_labels) != len(total_segments)\<close>: the
  lengths are compared only when \<open>total_segments\<close> is true.
\<close>

definition size_mismatch :: "string list \<Rightarrow> bool list option \<Rightarrow> bool" where
  "size_mismatch segment_labels' v =
     (case v of None \<Rightarrow> False
      | Some ts \<Rightarrow> ts \<noteq> [] \<and> length segment_labels' \<noteq> length ts)"

text \<open>
  The constructor, with the renderer's parameter as its first argument: it is the
  behaviour of the axes that \<open>plt.subplots\<close> returns.
\<close>

definition init ::
  "('k \<Rightarrow> error option) \<Rightarrow> string list \<Rightarrow> bool list option \<Rightarrow> error + 'k bridge" where
  "init raises segment_labels' total_segments' =
     (if size_mismatch segment_labels' total_segments'
      then Inl (ValueError ''total_segments must be the same size as the series_labels.'')
      else Inr \<lparr>layers = [],
                segment_labels = segment_labels',
                segment_count = length segment_labels',
                total_segments = py_or total_segments' (replicate (length segment_labels') False),
                ax = set_xticklabels segment_labels'
                       (set_xticks [0..<length segment_labels'] (subplots raises))\<rparr>)"

text \<open>
  \<open>add_layer\<close> and \<open>_plot\<close> work on an object that exists before and after the call,
  so they return the exception raised, if any, together with the object as the call
  left it.
\<close>

definition add_layer :: "'k bridge \<Rightarrow> fval list \<Rightarrow> bool \<Rightarrow> 'k \<Rightarrow> error option \<times> 'k bridge" where
  "add_layer self vals add_to_bottom bar_args' =
     (if segment_count self \<noteq> length vals
      then (Some (ValueError
        ''values must be the same size as the series_labels used to initialize the bridge.''), self)
      else
        let layer = \<lparr>values_of = vals, bar_args = bar_args'\<rparr>;
            self1 = (if add_to_bottom
                     then self\<lparr>layers := layer # layers self\<rparr>
                     else self\<lparr>layers := layers self @ [layer]\<rparr>)
        in plot self1)"

section \<open>Charts, their invariant and what is read from them\<close>

text \<open>
  A chart is an object made by the constructor and changed by \<open>add_layer\<close> only,
  whether the calls returned or raised.
\<close>

inductive chart :: "'k bridge \<Rightarrow> bool" where
  chart_init: "init raises segment_labels' total_segments' = Inr self \<Longrightarrow> chart self"
| chart_add: "chart self \<Longrightarrow> add_layer self vals add_to_bottom bar_args' = (r, self') \<Longrightarrow> chart self'"

text \<open>The sizes agree: labels, mask and every layer have \<open>segment_count\<close> entries.\<close>

definition sizes_agree :: "'k bridge \<Rightarrow> bool" where
  "sizes_agree self \<longleftrightarrow>
     segment_count self = length (segment_labels self) \<and>
     length (total_segments self) = segment_count self \<and>
     list_all (\<lambda>l. length (values_of l) = segment_count self) (layers self)"

text \<open>The bottoms of all layers as the axes hold them, in stacking order.\<close>

definition bottoms :: "'k bridge \<Rightarrow> real list list" where
  "bottoms self = map bar_bottom (bars (ax self))"

text \<open>
  \<open>cumulative_b\<close> after the loop of \<open>_calc_bottom\<close> has handled the segments
  \<open>0, \<dots>, i\<close>: the state of the loop after that prefix of its input.
\<close>

definition cumulative_b_after :: "'k bridge \<Rightarrow> fval list \<Rightarrow> real list \<Rightarrow> nat \<Rightarrow> real" where
  "cumulative_b_after self segment_values segment_tops i =
     (let segment_values1 = nan_to_num segment_values;
          segment_values2 = insert0_drop_last segment_values1;
          bottom_step1 = zip_add segment_tops segment_values2
      in fst (calc_loop (take (Suc i) (zip (total_segments self) (zip bottom_step1 segment_tops)))
                (0, [])))"

text \<open>
  The sum of the cleaned values at segment \<open>i\<close> over a list of layers, added from
  the first layer on, starting from 0.
\<close>

definition stacked :: "'k layer list \<Rightarrow> nat \<Rightarrow> real" where
  "stacked ls i = foldl (+) 0 (map (\<lambda>l. nan_to_num1 (values_of l ! i)) ls)"

text \<open>
  Whether the renderer of an object accepts given keyword arguments, and whether it
  accepts those of all layers of a list.
\<close>

definition accepts :: "'k bridge \<Rightarrow> 'k \<Rightarrow> bool" where
  "accepts self kw \<longleftrightarrow> bar_raises (ax self) kw = None"

definition accepts_all :: "'k bridge \<Rightarrow> 'k layer list \<Rightarrow> bool" where
  "accepts_all self ls \<longleftrightarrow> list_all (\<lambda>l. accepts self (bar_args l)) ls"

text \<open>A renderer that accepts every dict of keyword arguments.\<close>

definition accept_any :: "'k \<Rightarrow> error option" where
  "accept_any kw = None"

text \<open>
  The chart of the worked example: labels A, B, C, the third segment a total, a layer
  of fives added first and a layer of ones added on top.  The keyword arguments are
  the default, the empty dict.
\<close>

definition example_start :: "unit bridge" where
  "example_start =
     \<lparr>layers = [], segment_labels = [''A'', ''B'', ''C''], segment_count = 3,
      total_segments = [False, False, True],
      ax = \<lparr>xticks = [0, 1, 2], xticklabels = [''A'', ''B'', ''C''], bars = [],
             bar_raises = accept_any\<rparr>\<rparr>"

definition example_one :: "unit bridge" where
  "example_one = snd (add_layer example_start [Num 5, Num 5, Num 5] True ())"

definition example_chart :: "unit bridge" where
  "example_chart = snd (add_layer example_one [Num 1, Num 1, Num 1] False ())"

text \<open>
  Three more second layers for the chart with the layer of fives: one with a gap on
  top, one of ones put under it, one of zeros put under it.
\<close>

definition example_gap :: "unit bridge" where
  "example_gap = snd (add_layer example_one [Num 1, NaN, Num 1] False ())"

definition example_under :: "unit bridge" where
  "example_under = snd (add_layer example_one [Num 1, Num 1, Num 1] True ())"

definition example_flat :: "unit bridge" where
  "example_flat = snd (add_layer example_one [Num 0, Num 0, Num 0] True ())"

text \<open>The chart with the same labels and no mask given.\<close>

definition example_plain :: "unit bridge" where
  "example_plain =
     \<lparr>layers = [], segment_labels = [''A'', ''B'', ''C''], segment_count = 3,
      total_segments = [False, False, False],
      ax = \<lparr>xticks = [0, 1, 2], xticklabels = [''A'', ''B'', ''C''], bars = [],
             bar_raises = accept_any\<rparr>\<rparr>"



section \<open>The loop of \<open>_calc_bottom\<close>\<close>

lemma calc_loop_append: "calc_loop (xs @ ys) st = calc_loop ys (calc_loop xs st)"
proof (induction xs arbitrary: st)
  case Nil show ?case by (cases st) simp
next
  case (Cons x xs)
  obtain t b s where x: "x = (t, b, s)" by (cases x)
  obtain c out where st: "st = (c, out)" by (cases st)
  show ?case using Cons.IH by (simp add: x st)
qed

lemma calc_loop_out: "snd (calc_loop xs (c, out)) = out @ snd (calc_loop xs (c, []))"
  and calc_loop_cum: "fst (calc_loop xs (c, out)) = fst (calc_loop xs (c, []))"
proof (induction xs arbitrary: c out)
  case Nil
  { case 1 show ?case by simp }
  { case 2 show ?case by simp }
next
  case (Cons x xs)
  obtain t b s where x: "x = (t, b, s)" by (cases x)
  { case 1 show ?case using Cons.IH(1)[of _ "out @ [_]"] Cons.IH(1)[of _ "[_]"] by (simp add: x) }
  { case 2 show ?case using Cons.IH(2)[of _ "out @ [_]"] Cons.IH(2)[of _ "[_]"] by (simp add: x) }
qed

lemma calc_loop_length: "length (snd (calc_loop xs (c, out))) = length out + length xs"
  by (induction xs arbitrary: c out) auto

lemma calc_loop_snoc:
  "calc_loop (xs @ [(t, b, st)]) (c, []) =
     (let c' = (if t then st else fst (calc_loop xs (c, [])) + b)
      in (c', snd (calc_loop xs (c, [])) @ [c']))"
proof -
  obtain c1 out1 where r: "calc_loop xs (c, []) = (c1, out1)" by (cases "calc_loop xs (c, [])")
  show ?thesis by (simp add: calc_loop_append r Let_def)
qed

lemma calc_loop_nth:
  assumes "i < length xs"
  shows "snd (calc_loop xs (c, [])) ! i = fst (calc_loop (take (Suc i) xs) (c, []))"
proof -
  obtain t b st where x: "xs ! i = (t, b, st)" by (cases "xs ! i")
  have tk: "take (Suc i) xs = take i xs @ [(t, b, st)]"
    using assms x by (simp add: take_Suc_conv_app_nth)
  obtain c1 out1 where r: "calc_loop (take (Suc i) xs) (c, []) = (c1, out1)"
    by (cases "calc_loop (take (Suc i) xs) (c, [])")
  have len1: "length out1 = Suc i"
    using calc_loop_length[of "take (Suc i) xs" c "[]"] r assms by simp
  have out1: "out1 = snd (calc_loop (take i xs) (c, [])) @ [c1]"
    using r by (auto simp add: tk calc_loop_snoc Let_def)
  have "length (snd (calc_loop (take i xs) (c, []))) = i"
    using calc_loop_length[of "take i xs" c "[]"] assms by simp
  then have last1: "out1 ! i = c1"
    using out1 by (metis nth_append_length)
  have "calc_loop xs (c, []) = calc_loop (drop (Suc i) xs) (c1, out1)"
    using calc_loop_append[of "take (Suc i) xs" "drop (Suc i) xs" "(c, [])"] r by simp
  then have "snd (calc_loop xs (c, [])) = out1 @ snd (calc_loop (drop (Suc i) xs) (c1, []))"
    using calc_loop_out[of "drop (Suc i) xs" c1 out1] by simp
  then show ?thesis using len1 last1 r by (simp add: nth_append)
qed

section \<open>\<open>_calc_bottom\<close>: one entry per segment, each the accumulator at that point\<close>

lemma insert0_drop_last_length: "length (insert0_drop_last a) = length a"
  by (simp add: insert0_drop_last_def)

lemma insert0_drop_last_0: "a \<noteq> [] \<Longrightarrow> insert0_drop_last a ! 0 = 0"
  by (simp add: insert0_drop_last_def)

lemma insert0_drop_last_Suc: "Suc i < length a \<Longrightarrow> insert0_drop_last a ! Suc i = a ! i"
  using nth_butlast[of "Suc i" "0 # a"] by (simp add: insert0_drop_last_def del: butlast.simps)

lemma zip_add_length: "length (zip_add xs ys) = min (length xs) (length ys)"
  by (simp add: zip_add_def)

lemma zip_add_nth: "i < length xs \<Longrightarrow> i < length ys \<Longrightarrow> zip_add xs ys ! i = xs ! i + ys ! i"
  by (simp add: zip_add_def)

lemma nan_to_num_length: "length (nan_to_num a) = length a"
  by (simp add: nan_to_num_def)

lemma nan_to_num_nth: "i < length a \<Longrightarrow> nan_to_num a ! i = nan_to_num1 (a ! i)"
  by (simp add: nan_to_num_def)

lemma calc_bottom_length:
  "length (calc_bottom self vals tops) =
     min (length (total_segments self)) (min (length tops) (length vals))"
  using calc_loop_length[of _ 0 "[]"]
  by (simp add: calc_bottom_def Let_def zip_add_length insert0_drop_last_length nan_to_num_length)

lemma calc_bottom_nth:
  assumes "i < length (total_segments self)" "i < length tops" "i < length vals"
  shows "calc_bottom self vals tops ! i = cumulative_b_after self vals tops i"
  using assms
  by (simp add: calc_bottom_def cumulative_b_after_def Let_def calc_loop_nth
      zip_add_length insert0_drop_last_length nan_to_num_length)

lemma cumulative_b_after_0:
  assumes "0 < length (total_segments self)" "0 < length tops" "0 < length vals"
  shows "cumulative_b_after self vals tops 0 = tops ! 0"
proof -
  obtain t ts where m: "total_segments self = t # ts" using assms(1) by (cases "total_segments self") auto
  obtain x xs where tp: "tops = x # xs" using assms(2) by (cases tops) auto
  obtain v vs where vl: "vals = v # vs" using assms(3) by (cases vals) auto
  show ?thesis
    by (simp add: cumulative_b_after_def Let_def m tp vl zip_add_def insert0_drop_last_def nan_to_num_def)
qed

lemma cumulative_b_after_Suc:
  assumes "Suc i < length (total_segments self)" "Suc i < length tops" "Suc i < length vals"
  shows "cumulative_b_after self vals tops (Suc i) =
     (if total_segments self ! Suc i then tops ! Suc i
      else cumulative_b_after self vals tops i + (tops ! Suc i + nan_to_num1 (vals ! i)))"
proof -
  let ?b1 = "zip_add tops (insert0_drop_last (nan_to_num vals))"
  let ?rows = "zip (total_segments self) (zip ?b1 tops)"
  have len: "Suc i < length ?rows"
    using assms by (simp add: zip_add_length insert0_drop_last_length nan_to_num_length)
  have b1: "?b1 ! Suc i = tops ! Suc i + nan_to_num1 (vals ! i)"
    using assms by (simp add: zip_add_nth insert0_drop_last_length nan_to_num_length
        insert0_drop_last_Suc nan_to_num_nth)
  have row: "?rows ! Suc i = (total_segments self ! Suc i, tops ! Suc i + nan_to_num1 (vals ! i), tops ! Suc i)"
    using len b1 by simp
  have "take (Suc (Suc i)) ?rows = take (Suc i) ?rows @ [?rows ! Suc i]"
    using len by (simp add: take_Suc_conv_app_nth)
  then show ?thesis
    unfolding cumulative_b_after_def Let_def row by (simp add: calc_loop_snoc Let_def)
qed


section \<open>The loop of \<open>_plot\<close>\<close>

lemma calc_bottom_cong:
  "total_segments self' = total_segments self \<Longrightarrow> calc_bottom self' vals tops = calc_bottom self vals tops"
  by (simp add: calc_bottom_def)

lemma plot_loop_cong:
  assumes "total_segments self' = total_segments self" "segment_count self' = segment_count self"
  shows "plot_loop self' ls st = plot_loop self ls st"
proof (induction ls arbitrary: st)
  case Nil show ?case by (cases st) simp
next
  case (Cons l ls)
  obtain tops a where st: "st = (tops, a)" by (cases st)
  show ?case
    using Cons.IH assms
    by (simp add: st Let_def calc_bottom_cong[OF assms(1)] split: sum.splits)
qed

lemma bar_cases:
  "(bar_raises a kw = None \<and>
      bar x h b kw a = Inr (a\<lparr>bars := bars a @
        [\<lparr>bar_x = x, bar_height = h, bar_bottom = b, bar_kwargs = kw\<rparr>]\<rparr>)) \<or>
   (\<exists>e. bar_raises a kw = Some e \<and> bar x h b kw a = Inl e)"
  by (cases "bar_raises a kw") (simp_all add: bar_def)

text \<open>The loop changes neither the ticks nor the renderer, and keeps the bars it found.\<close>

lemma plot_loop_keeps:
  assumes "plot_loop self ls (tops, a) = (r, tops', a')"
  shows "bar_raises a' = bar_raises a \<and> xticks a' = xticks a \<and> xticklabels a' = xticklabels a \<and>
     length (bars a) \<le> length (bars a') \<and> take (length (bars a)) (bars a') = bars a"
  using assms
proof (induction ls arbitrary: tops a)
  case Nil
  then show ?case by simp
next
  case (Cons l ls)
  let ?b = "calc_bottom self (values_of l) tops"
  from bar_cases[of a "bar_args l" "[0..<segment_count self]" "values_of l" ?b]
  show ?case
  proof (elim disjE conjE exE)
    fix e assume "bar [0..<segment_count self] (values_of l) ?b (bar_args l) a = Inl e"
    then show ?thesis using Cons.prems by (simp add: Let_def)
  next
    let ?a1 = "a\<lparr>bars := bars a @ [\<lparr>bar_x = [0..<segment_count self], bar_height = values_of l,
       bar_bottom = ?b, bar_kwargs = bar_args l\<rparr>]\<rparr>"
    assume "bar [0..<segment_count self] (values_of l) ?b (bar_args l) a = Inr ?a1"
    then have "plot_loop self ls (zip_add tops (nan_to_num (values_of l)), ?a1) = (r, tops', a')"
      using Cons.prems by (simp add: Let_def)
    from Cons.IH[OF this]
    have k: "bar_raises a' = bar_raises a" "xticks a' = xticks a" "xticklabels a' = xticklabels a"
      "Suc (length (bars a)) \<le> length (bars a')"
      "take (Suc (length (bars a))) (bars a') = bars ?a1"
      by simp_all
    have "take (length (bars a)) (take (Suc (length (bars a))) (bars a')) =
        take (length (bars a)) (bars ?a1)"
      using k(5) by simp
    then have "take (length (bars a)) (bars a') = bars a"
      by (simp add: min_def)
    then show ?thesis using k by simp
  qed
qed

text \<open>
  The loop returns normally exactly when the renderer accepts the keyword arguments of
  every layer, and then it has drawn one bar call for each; an exception is one the
  renderer raised for a layer of the list.
\<close>

lemma plot_loop_result:
  assumes "plot_loop self ls (tops, a) = (r, tops', a')"
  shows "(r = None \<longleftrightarrow> list_all (\<lambda>l. bar_raises a (bar_args l) = None) ls) \<and>
     (r = None \<longrightarrow> length (bars a') = length (bars a) + length ls) \<and>
     (r \<noteq> None \<longrightarrow> (\<exists>l\<in>set ls. r = bar_raises a (bar_args l))) \<and>
     length (bars a') \<le> length (bars a) + length ls"
  using assms
proof (induction ls arbitrary: tops a)
  case Nil
  then show ?case by auto
next
  case (Cons l ls)
  let ?b = "calc_bottom self (values_of l) tops"
  from bar_cases[of a "bar_args l" "[0..<segment_count self]" "values_of l" ?b]
  show ?case
  proof (elim disjE conjE exE)
    fix e assume e: "bar_raises a (bar_args l) = Some e"
      "bar [0..<segment_count self] (values_of l) ?b (bar_args l) a = Inl e"
    then have "r = Some e" "a' = a" using Cons.prems by (simp_all add: Let_def)
    then show ?thesis using e(1) by simp
  next
    let ?a1 = "a\<lparr>bars := bars a @ [\<lparr>bar_x = [0..<segment_count self], bar_height = values_of l,
       bar_bottom = ?b, bar_kwargs = bar_args l\<rparr>]\<rparr>"
    assume ok: "bar_raises a (bar_args l) = None"
      and "bar [0..<segment_count self] (values_of l) ?b (bar_args l) a = Inr ?a1"
    then have "plot_loop self ls (zip_add tops (nan_to_num (values_of l)), ?a1) = (r, tops', a')"
      using Cons.prems by (simp add: Let_def)
    from Cons.IH[OF this] ok show ?thesis by auto
  qed
qed

text \<open>
  Each bar call the loop has drawn is the one for the layer at its position: the
  layer's raw values, its keyword arguments, and the bottoms \<open>_calc_bottom\<close> gives
  for the tops updated with the layers before it.
\<close>

lemma plot_loop_bars_nth:
  assumes "plot_loop self ls (tops, a) = (r, tops', a')" "length (bars a) + k < length (bars a')"
  shows "k < length ls \<and>
     bars a' ! (length (bars a) + k) =
       \<lparr>bar_x = [0..<segment_count self], bar_height = values_of (ls ! k),
        bar_bottom = calc_bottom self (values_of (ls ! k))
          (foldl (\<lambda>t l. zip_add t (nan_to_num (values_of l))) tops (take k ls)),
        bar_kwargs = bar_args (ls ! k)\<rparr>"
  using assms
proof (induction ls arbitrary: tops a k)
  case Nil
  then show ?case by simp
next
  case (Cons l ls)
  let ?b = "calc_bottom self (values_of l) tops"
  from bar_cases[of a "bar_args l" "[0..<segment_count self]" "values_of l" ?b]
  show ?case
  proof (elim disjE conjE exE)
    fix e assume "bar [0..<segment_count self] (values_of l) ?b (bar_args l) a = Inl e"
    then show ?thesis using Cons.prems by (simp add: Let_def)
  next
    let ?rec = "\<lparr>bar_x = [0..<segment_count self], bar_height = values_of l,
       bar_bottom = ?b, bar_kwargs = bar_args l\<rparr>"
    let ?a1 = "a\<lparr>bars := bars a @ [?rec]\<rparr>"
    let ?t1 = "zip_add tops (nan_to_num (values_of l))"
    assume "bar [0..<segment_count self] (values_of l) ?b (bar_args l) a = Inr ?a1"
    then have run: "plot_loop self ls (?t1, ?a1) = (r, tops', a')"
      using Cons.prems(1) by (simp add: Let_def)
    show ?thesis
    proof (cases k)
      case 0
      have "take (length (bars ?a1)) (bars a') = bars ?a1"
        using plot_loop_keeps[OF run] by simp
      then have "take (Suc (length (bars a))) (bars a') ! length (bars a) = (bars a @ [?rec]) ! length (bars a)"
        by simp
      then have "bars a' ! length (bars a) = ?rec"
        by simp
      then show ?thesis using 0 by simp
    next
      case (Suc j)
      have "length (bars ?a1) + j < length (bars a')"
        using Cons.prems(2) Suc by simp
      from Cons.IH[OF run this] show ?thesis using Suc by simp
    qed
  qed
qed

section \<open>\<open>_plot\<close>, and the invariant of charts\<close>

lemma plot_cases:
  obtains r tops' a' where
    "plot_loop self (layers self)
       (replicate (segment_count self) 0,
        \<lparr>xticks = [0..<length (segment_labels self)], xticklabels = segment_labels self,
         bars = [], bar_raises = bar_raises (ax self)\<rparr>) = (r, tops', a')"
    "plot self = (r, self\<lparr>ax := a'\<rparr>)"
proof -
  let ?a3 = "\<lparr>xticks = [0..<length (segment_labels self)], xticklabels = segment_labels self,
         bars = [], bar_raises = bar_raises (ax self)\<rparr>"
  obtain r tops' a' where run: "plot_loop self (layers self) (replicate (segment_count self) 0, ?a3) = (r, tops', a')"
    by (cases "plot_loop self (layers self) (replicate (segment_count self) 0, ?a3)") auto
  then have "plot self = (r, self\<lparr>ax := a'\<rparr>)"
    by (simp add: plot_def Let_def clear_def set_xticks_def set_xticklabels_def)
  with run show ?thesis by (rule that)
qed

lemma plot_fields:
  "layers (snd (plot self)) = layers self"
  "segment_labels (snd (plot self)) = segment_labels self"
  "segment_count (snd (plot self)) = segment_count self"
  "total_segments (snd (plot self)) = total_segments self"
  "bar_raises (ax (snd (plot self))) = bar_raises (ax self)"
proof -
  obtain r tops' a' where run: "plot_loop self (layers self)
       (replicate (segment_count self) 0,
        \<lparr>xticks = [0..<length (segment_labels self)], xticklabels = segment_labels self,
         bars = [], bar_raises = bar_raises (ax self)\<rparr>) = (r, tops', a')"
    and p: "plot self = (r, self\<lparr>ax := a'\<rparr>)"
    by (rule plot_cases)
  show "layers (snd (plot self)) = layers self"
    "segment_labels (snd (plot self)) = segment_labels self"
    "segment_count (snd (plot self)) = segment_count self"
    "total_segments (snd (plot self)) = total_segments self"
    by (simp_all add: p)
  show "bar_raises (ax (snd (plot self))) = bar_raises (ax self)"
    using plot_loop_keeps[OF run] by (simp add: p)
qed

lemma plot_ax_update:
  assumes "bar_raises a = bar_raises (ax self)"
  shows "plot (self\<lparr>ax := a\<rparr>) = (fst (plot self), snd (plot self))"
proof -
  have "plot_loop (self\<lparr>ax := a\<rparr>) ls st = plot_loop self ls st" for ls st
    by (rule plot_loop_cong) simp_all
  then show ?thesis using assms by (simp add: plot_def Let_def clear_def split: prod.splits)
qed

lemma plot_idem: "plot (snd (plot self)) = plot self"
proof -
  obtain r tops' a' where run: "plot_loop self (layers self)
       (replicate (segment_count self) 0,
        \<lparr>xticks = [0..<length (segment_labels self)], xticklabels = segment_labels self,
         bars = [], bar_raises = bar_raises (ax self)\<rparr>) = (r, tops', a')"
    and p: "plot self = (r, self\<lparr>ax := a'\<rparr>)"
    by (rule plot_cases)
  have "bar_raises a' = bar_raises (ax self)"
    using plot_loop_keeps[OF run] by simp
  then have "plot (self\<lparr>ax := a'\<rparr>) = (fst (plot self), snd (plot self))"
    by (rule plot_ax_update)
  then show ?thesis by (simp add: p)
qed

text \<open>
  \<open>_plot\<close> returns normally exactly when the renderer accepts the keyword arguments of
  every layer, and then every layer has its bar call; an exception is one the renderer
  raised for a layer; there are never more bar calls than layers.
\<close>

lemma plot_result:
  shows "fst (plot self) = None \<longleftrightarrow> accepts_all self (layers self)"
    and "fst (plot self) = None \<Longrightarrow> length (bars (ax (snd (plot self)))) = length (layers self)"
    and "fst (plot self) \<noteq> None \<Longrightarrow>
      \<exists>l\<in>set (layers self). fst (plot self) = bar_raises (ax self) (bar_args l)"
    and "length (bars (ax (snd (plot self)))) \<le> length (layers self)"
proof -
  obtain r tops' a' where run: "plot_loop self (layers self)
       (replicate (segment_count self) 0,
        \<lparr>xticks = [0..<length (segment_labels self)], xticklabels = segment_labels self,
         bars = [], bar_raises = bar_raises (ax self)\<rparr>) = (r, tops', a')"
    and p: "plot self = (r, self\<lparr>ax := a'\<rparr>)"
    by (rule plot_cases)
  have res: "(r = None \<longleftrightarrow> list_all (\<lambda>l. bar_raises (ax self) (bar_args l) = None) (layers self)) \<and>
     (r = None \<longrightarrow> length (bars a') = length (layers self)) \<and>
     (r \<noteq> None \<longrightarrow> (\<exists>l\<in>set (layers self). r = bar_raises (ax self) (bar_args l))) \<and>
     length (bars a') \<le> length (layers self)"
    using plot_loop_result[OF run] by (cases r) auto
  show "fst (plot self) = None \<longleftrightarrow> accepts_all self (layers self)"
    using res by (auto simp: p accepts_all_def accepts_def)
  show "length (bars (ax (snd (plot self)))) = length (layers self)" if "fst (plot self) = None"
    using res that by (auto simp: p)
  show "\<exists>l\<in>set (layers self). fst (plot self) = bar_raises (ax self) (bar_args l)"
    if "fst (plot self) \<noteq> None"
    using res that by (auto simp: p)
  show "length (bars (ax (snd (plot self)))) \<le> length (layers self)"
    using res by (auto simp: p)
qed

lemma plot_bar_nth:
  assumes "k < length (bars (ax (snd (plot self))))"
  shows "k < length (layers self) \<and>
     bars (ax (snd (plot self))) ! k =
     \<lparr>bar_x = [0..<segment_count self], bar_height = values_of (layers self ! k),
      bar_bottom = calc_bottom self (values_of (layers self ! k)) (tops_before self k),
      bar_kwargs = bar_args (layers self ! k)\<rparr>"
proof -
  obtain r tops' a' where run: "plot_loop self (layers self)
       (replicate (segment_count self) 0,
        \<lparr>xticks = [0..<length (segment_labels self)], xticklabels = segment_labels self,
         bars = [], bar_raises = bar_raises (ax self)\<rparr>) = (r, tops', a')"
    and p: "plot self = (r, self\<lparr>ax := a'\<rparr>)"
    by (rule plot_cases)
  have "k < length (bars a')" using assms by (simp add: p)
  then show ?thesis
    using plot_loop_bars_nth[OF run, of k] by (simp add: p tops_before_def)
qed

lemma foldl_tops_length:
  assumes "list_all (\<lambda>l. length (values_of l) = n) ls" "length tops = n"
  shows "length (foldl (\<lambda>t l. zip_add t (nan_to_num (values_of l))) tops ls) = n"
  using assms
  by (induction ls arbitrary: tops) (simp_all add: zip_add_length nan_to_num_length)

lemma foldl_add_start: "foldl (+) (a::real) xs = a + foldl (+) 0 xs"
proof (induction xs arbitrary: a)
  case Nil
  show ?case by simp
next
  case (Cons x xs)
  show ?case using Cons.IH[of "a + x"] Cons.IH[of x] by simp
qed

lemma foldl_tops_nth:
  assumes "list_all (\<lambda>l. length (values_of l) = n) ls" "length tops = n" "i < n"
  shows "foldl (\<lambda>t l. zip_add t (nan_to_num (values_of l))) tops ls ! i = tops ! i + stacked ls i"
  using assms
proof (induction ls arbitrary: tops)
  case Nil
  then show ?case by (simp add: stacked_def)
next
  case (Cons l ls)
  have "length (zip_add tops (nan_to_num (values_of l))) = n"
    using Cons.prems by (simp add: zip_add_length nan_to_num_length)
  then show ?case
    using Cons.IH[of "zip_add tops (nan_to_num (values_of l))"] Cons.prems
      foldl_add_start[of "nan_to_num1 (values_of l ! i)"
        "map (\<lambda>l. nan_to_num1 (values_of l ! i)) ls"]
    by (simp add: stacked_def zip_add_nth nan_to_num_length nan_to_num_nth)
qed

lemma tops_before_0: "tops_before self 0 = replicate (segment_count self) 0"
  by (simp add: tops_before_def)

lemma tops_before_length:
  assumes "sizes_agree self"
  shows "length (tops_before self k) = segment_count self"
proof -
  have "list_all (\<lambda>l. length (values_of l) = segment_count self) (take k (layers self))"
    using assms by (auto simp: sizes_agree_def list_all_iff dest: in_set_takeD)
  then show ?thesis
    unfolding tops_before_def by (rule foldl_tops_length) simp
qed

lemma tops_before_nth:
  assumes "sizes_agree self" "i < segment_count self"
  shows "tops_before self k ! i = stacked (take k (layers self)) i"
proof -
  have "list_all (\<lambda>l. length (values_of l) = segment_count self) (take k (layers self))"
    using assms by (auto simp: sizes_agree_def list_all_iff dest: in_set_takeD)
  then have "tops_before self k ! i =
      replicate (segment_count self) 0 ! i + stacked (take k (layers self)) i"
    unfolding tops_before_def using assms(2) by (intro foldl_tops_nth) simp_all
  then show ?thesis using assms(2) by simp
qed

lemma tops_before_Suc:
  assumes "sizes_agree self" "k < length (layers self)" "i < segment_count self"
  shows "tops_before self (Suc k) ! i =
     tops_before self k ! i + nan_to_num1 (values_of (layers self ! k) ! i)"
  using assms by (simp add: tops_before_nth take_Suc_conv_app_nth stacked_def)

lemma sizes_agree_init:
  assumes "init raises segment_labels' total_segments' = Inr self"
  shows "sizes_agree self \<and> plot self = (None, self) \<and> layers self = [] \<and>
     bars (ax self) = [] \<and> bar_raises (ax self) = raises"
proof -
  have m: "\<not> size_mismatch segment_labels' total_segments'"
    using assms by (auto simp: init_def split: if_splits)
  have self: "self = \<lparr>layers = [], segment_labels = segment_labels',
                segment_count = length segment_labels',
                total_segments = py_or total_segments' (replicate (length segment_labels') False),
                ax = set_xticklabels segment_labels'
                       (set_xticks [0..<length segment_labels'] (subplots raises))\<rparr>"
    using assms m by (simp add: init_def)
  have "length (py_or total_segments' (replicate (length segment_labels') False)) = length segment_labels'"
    using m by (auto simp: size_mismatch_def py_or_def split: option.splits)
  then have "sizes_agree self"
    by (simp add: self sizes_agree_def)
  moreover have "plot self = (None, self)"
    by (simp add: self plot_def Let_def clear_def set_xticks_def set_xticklabels_def subplots_def)
  ultimately show ?thesis
    by (simp add: self set_xticks_def set_xticklabels_def subplots_def)
qed

lemma add_layer_cases:
  assumes "add_layer self vals add_to_bottom bar_args' = (r, self')"
  shows "(segment_count self \<noteq> length vals \<and> r \<noteq> None \<and> self' = self) \<or>
     (segment_count self = length vals \<and>
      (r, self') = plot (self\<lparr>layers := (if add_to_bottom
                then \<lparr>values_of = vals, bar_args = bar_args'\<rparr> # layers self
                else layers self @ [\<lparr>values_of = vals, bar_args = bar_args'\<rparr>])\<rparr>))"
  using assms by (auto simp: add_layer_def Let_def split: if_splits)

lemma sizes_agree_add_layer:
  assumes "sizes_agree self" "add_layer self vals add_to_bottom bar_args' = (r, self')"
  shows "sizes_agree self'"
proof -
  from add_layer_cases[OF assms(2)] show ?thesis
  proof (elim disjE conjE)
    assume "self' = self" then show ?thesis using assms(1) by simp
  next
    let ?s1 = "self\<lparr>layers := (if add_to_bottom
                then \<lparr>values_of = vals, bar_args = bar_args'\<rparr> # layers self
                else layers self @ [\<lparr>values_of = vals, bar_args = bar_args'\<rparr>])\<rparr>"
    assume n: "segment_count self = length vals" and "(r, self') = plot ?s1"
    then have "self' = snd (plot ?s1)" by (metis snd_conv)
    then show ?thesis using assms(1) n by (auto simp: sizes_agree_def plot_fields)
  qed
qed

lemma chart_invariant: "chart self \<Longrightarrow> sizes_agree self \<and> snd (plot self) = self"
proof (induction rule: chart.induct)
  case (chart_init raises segment_labels' total_segments' self)
  then show ?case using sizes_agree_init[of raises segment_labels' total_segments' self] by simp
next
  case (chart_add self vals add_to_bottom bar_args' r self')
  have "snd (plot self') = self'"
    using add_layer_cases[OF chart_add.hyps(2)] chart_add.IH
    by (auto simp: plot_idem) (metis plot_idem snd_conv)
  then show ?case
    using sizes_agree_add_layer[OF _ chart_add.hyps(2)] chart_add.IH by simp
qed

lemma chart_bars_le: "chart self \<Longrightarrow> length (bars (ax self)) \<le> length (layers self)"
  using plot_result(4)[of self] chart_invariant[of self] by simp

lemma chart_drawn:
  "chart self \<Longrightarrow> accepts_all self (layers self) \<Longrightarrow> length (bars (ax self)) = length (layers self)"
  using plot_result(1,2)[of self] chart_invariant[of self] by simp

lemma chart_bar_nth:
  assumes "chart self" "k < length (bars (ax self))"
  shows "k < length (layers self) \<and>
     bars (ax self) ! k =
     \<lparr>bar_x = [0..<segment_count self], bar_height = values_of (layers self ! k),
      bar_bottom = calc_bottom self (values_of (layers self ! k)) (tops_before self k),
      bar_kwargs = bar_args (layers self ! k)\<rparr>"
  using plot_bar_nth[of k self] chart_invariant[OF assms(1)] assms(2) by simp

lemma chart_sizes:
  assumes "chart self" "k < length (layers self)"
  shows "length (total_segments self) = segment_count self"
    and "length (values_of (layers self ! k)) = segment_count self"
    and "length (tops_before self k) = segment_count self"
proof -
  have sz: "sizes_agree self" using chart_invariant[OF assms(1)] by simp
  show "length (total_segments self) = segment_count self"
    using sz by (simp add: sizes_agree_def)
  show "length (values_of (layers self ! k)) = segment_count self"
    using sz assms(2) by (simp add: sizes_agree_def list_all_length)
  show "length (tops_before self k) = segment_count self"
    using sz by (rule tops_before_length)
qed

lemma chart_bottoms_shape:
  assumes "chart self" "k < length (bottoms self)"
  shows "k < length (layers self)"
    and "bottoms self ! k = calc_bottom self (values_of (layers self ! k)) (tops_before self k)"
    and "length (bottoms self ! k) = segment_count self"
proof -
  have k: "k < length (bars (ax self))" using assms(2) by (simp add: bottoms_def)
  show l: "k < length (layers self)"
    using chart_bar_nth[OF assms(1) k] by simp
  show b: "bottoms self ! k = calc_bottom self (values_of (layers self ! k)) (tops_before self k)"
    using chart_bar_nth[OF assms(1) k] k by (simp add: bottoms_def)
  show "length (bottoms self ! k) = segment_count self"
    using chart_sizes[OF assms(1) l] by (simp add: b calc_bottom_length)
qed

lemma chart_bottom_nth:
  assumes "chart self" "k < length (bottoms self)" "i < segment_count self"
  shows "bottoms self ! k ! i =
     cumulative_b_after self (values_of (layers self ! k)) (tops_before self k) i"
  using chart_bottoms_shape(1,2)[OF assms(1,2)] assms(3)
    chart_sizes[OF assms(1) chart_bottoms_shape(1)[OF assms(1,2)]]
  by (simp add: calc_bottom_nth)

lemma chart_all_bottoms:
  "chart self \<Longrightarrow> accepts_all self (layers self) \<Longrightarrow> length (bottoms self) = length (layers self)"
  using chart_drawn[of self] by (simp add: bottoms_def)

section \<open>The worked example\<close>

lemmas eval_defs = init_def add_layer_def size_mismatch_def py_or_def plot_def
    clear_def set_xticks_def set_xticklabels_def subplots_def bar_def calc_bottom_def
    nan_to_num_def insert0_drop_last_def zip_add_def bottoms_def tops_before_def Let_def
    accept_any_def

lemma example_start_init:
  "init accept_any [''A'', ''B'', ''C''] (Some [False, False, True]) = Inr example_start"
  by (simp add: init_def size_mismatch_def py_or_def set_xticks_def set_xticklabels_def
      subplots_def example_start_def)

lemma example_one_eq: "example_one = \<lparr>layers = [\<lparr>values_of = [Num 5, Num 5, Num 5], bar_args = ()\<rparr>],
        segment_labels = [''A'', ''B'', ''C''], segment_count = 3,
        total_segments = [False, False, True],
        ax = \<lparr>xticks = [0, 1, 2], xticklabels = [''A'', ''B'', ''C''],
                bars =
                  [\<lparr>bar_x = [0, 1, 2], bar_height = [Num 5, Num 5, Num 5],
                      bar_bottom = [0, 5, 0], bar_kwargs = ()\<rparr>],
                bar_raises = accept_any\<rparr>\<rparr>"
  by (simp add: eval_defs example_one_def example_start_def numeral_3_eq_3)

lemma example_chart_eq: "example_chart =  \<lparr>layers =
        [\<lparr>values_of = [Num 5, Num 5, Num 5], bar_args = ()\<rparr>,
         \<lparr>values_of = [Num 1, Num 1, Num 1], bar_args = ()\<rparr>],
        segment_labels = [''A'', ''B'', ''C''], segment_count = 3,
        total_segments = [False, False, True],
        ax = \<lparr>xticks = [0, 1, 2], xticklabels = [''A'', ''B'', ''C''],
                bars =
                  [\<lparr>bar_x = [0, 1, 2], bar_height = [Num 5, Num 5, Num 5],
                      bar_bottom = [0, 5, 0], bar_kwargs = ()\<rparr>,
                   \<lparr>bar_x = [0, 1, 2], bar_height = [Num 1, Num 1, Num 1],
                      bar_bottom = [5, 11, 5], bar_kwargs = ()\<rparr>],
                bar_raises = accept_any\<rparr>\<rparr>"
  by (simp add: eval_defs example_chart_def example_one_eq numeral_3_eq_3)

lemma example_one_add:
  "add_layer example_start [Num 5, Num 5, Num 5] True () = (None, example_one)"
  by (simp add: eval_defs example_one_eq example_start_def numeral_3_eq_3)

lemma example_chart_add:
  "add_layer example_one [Num 1, Num 1, Num 1] False () = (None, example_chart)"
  by (simp add: eval_defs example_chart_eq example_one_eq numeral_3_eq_3)

text \<open>
  Claim C1.  The chart with labels A, B, C and mask (false, false, true) is
  constructed; \<open>add_layer([5,5,5])\<close> succeeds and the layer gets the bottoms
  (0, 5, 0); \<open>add_layer([1,1,1], add_to_bottom=False)\<close> succeeds, the tops between
  the two layers are (5, 5, 5), the layer of fives is the lower one, and the bottoms
  are (0, 5, 0) for the lower layer and (5, 11, 5) for the upper one.
\<close>

theorem example_end_to_end:
  "init accept_any [''A'', ''B'', ''C''] (Some [False, False, True]) = Inr example_start \<and>
   add_layer example_start [Num 5, Num 5, Num 5] True () = (None, example_one) \<and>
   bottoms example_one = [[0, 5, 0]] \<and>
   add_layer example_one [Num 1, Num 1, Num 1] False () = (None, example_chart) \<and>
   map values_of (layers example_chart) = [[Num 5, Num 5, Num 5], [Num 1, Num 1, Num 1]] \<and>
   tops_before example_chart 1 = [5, 5, 5] \<and>
   bottoms example_chart = [[0, 5, 0], [5, 11, 5]]"
proof -
  have c: "tops_before example_chart 1 = [5, 5, 5]"
    by (simp add: example_chart_eq tops_before_def nan_to_num_def zip_add_def
        numeral_3_eq_3 Let_def)
  show ?thesis
    using example_start_init example_one_add example_chart_add c
    by (simp add: example_one_eq example_chart_eq bottoms_def)
qed

section \<open>The example is a chart\<close>

lemma chart_example_start: "chart example_start"
  using example_start_init by (rule chart_init)

lemma chart_example_one: "chart example_one"
  using chart_example_start example_one_add by (rule chart_add)

lemma chart_example_chart: "chart example_chart"
  using chart_example_one example_chart_add by (rule chart_add)

section \<open>Total segments and segment 0\<close>

lemma stacked_cong:
  assumes "k \<le> length ls" "k \<le> length ls'"
    "\<forall>j<k. values_of (ls' ! j) ! i = values_of (ls ! j) ! i"
  shows "stacked (take k ls') i = stacked (take k ls) i"
proof -
  have "map (\<lambda>l. nan_to_num1 (values_of l ! i)) (take k ls') =
        map (\<lambda>l. nan_to_num1 (values_of l ! i)) (take k ls)"
    using assms by (intro nth_equalityI) simp_all
  then show ?thesis by (simp add: stacked_def)
qed

lemma cumulative_b_after_total:
  assumes "i < length (total_segments self)" "i < length tops" "i < length vals"
    "total_segments self ! i"
  shows "cumulative_b_after self vals tops i = tops ! i"
proof (cases i)
  case 0
  then show ?thesis using assms cumulative_b_after_0 by simp
next
  case (Suc j)
  then show ?thesis using assms cumulative_b_after_Suc[of j self tops vals] by simp
qed

lemma total_bottom:
  assumes "chart self" "k < length (bottoms self)" "i < segment_count self"
    "total_segments self ! i"
  shows "bottoms self ! k ! i = stacked (take k (layers self)) i"
proof -
  have sz: "sizes_agree self" using chart_invariant[OF assms(1)] by simp
  have l: "k < length (layers self)" using chart_bottoms_shape(1)[OF assms(1,2)] .
  have "bottoms self ! k ! i = tops_before self k ! i"
    using assms chart_sizes[OF assms(1) l]
    by (simp add: chart_bottom_nth cumulative_b_after_total)
  then show ?thesis using tops_before_nth[OF sz assms(3)] by simp
qed

text \<open>
  Claim C2.  In a chart, take a layer that has been drawn, at position \<open>k\<close>, and a
  total segment \<open>i\<close>.  The bottom of the layer at \<open>i\<close> is the top stacked at \<open>i\<close> by
  the layers below it, that is the sum of their cleaned values at \<open>i\<close>;
  \<open>cumulative_b\<close> has that value after the loop has handled segment \<open>i\<close>; and any
  chart whose layers below position \<open>k\<close> have the same values at \<open>i\<close> gives the same
  bottom there, whatever its other values are.  Every layer has been drawn when the
  renderer accepts the keyword arguments of all layers; and drawn or not, what
  \<open>_calc_bottom\<close> returns for a layer over the tops of the layers below it has that
  sum at \<open>i\<close>.
\<close>

theorem total_reset:
  assumes "chart self" "k < length (bottoms self)" "i < segment_count self"
    "total_segments self ! i"
  shows "k < length (layers self) \<and> i < length (bottoms self ! k) \<and>
     bottoms self ! k ! i = tops_before self k ! i \<and>
     tops_before self k ! i = stacked (take k (layers self)) i \<and>
     cumulative_b_after self (values_of (layers self ! k)) (tops_before self k) i =
       tops_before self k ! i \<and>
     (\<forall>self' :: 'a bridge.
        chart self' \<and> k < length (bottoms self') \<and> i < segment_count self' \<and>
        total_segments self' ! i \<and>
        (\<forall>j<k. values_of (layers self' ! j) ! i = values_of (layers self ! j) ! i) \<longrightarrow>
        bottoms self' ! k ! i = bottoms self ! k ! i) \<and>
     (accepts_all self (layers self) \<longrightarrow> length (bottoms self) = length (layers self)) \<and>
     (\<forall>j<length (layers self).
        calc_bottom self (values_of (layers self ! j)) (tops_before self j) ! i =
          stacked (take j (layers self)) i)"
proof -
  have sz: "sizes_agree self" using chart_invariant[OF assms(1)] by simp
  have l: "k < length (layers self)" using chart_bottoms_shape(1)[OF assms(1,2)] .
  have t: "tops_before self k ! i = stacked (take k (layers self)) i"
    using tops_before_nth[OF sz assms(3)] .
  have b: "bottoms self ! k ! i = stacked (take k (layers self)) i"
    using assms by (rule total_bottom)
  have c: "cumulative_b_after self (values_of (layers self ! k)) (tops_before self k) i =
       tops_before self k ! i"
    using assms chart_sizes[OF assms(1) l] by (simp add: cumulative_b_after_total)
  have "bottoms self' ! k ! i = bottoms self ! k ! i"
    if h: "chart self'" "k < length (bottoms self')" "i < segment_count self'"
      "total_segments self' ! i"
      "\<forall>j<k. values_of (layers self' ! j) ! i = values_of (layers self ! j) ! i"
    for self' :: "'a bridge"
  proof -
    have "bottoms self' ! k ! i = stacked (take k (layers self')) i"
      using h(1-4) by (rule total_bottom)
    also have "\<dots> = stacked (take k (layers self)) i"
      using l chart_bottoms_shape(1)[OF h(1,2)] h(5) by (intro stacked_cong) simp_all
    finally show ?thesis using b by simp
  qed
  moreover have "calc_bottom self (values_of (layers self ! j)) (tops_before self j) ! i =
      stacked (take j (layers self)) i" if "j < length (layers self)" for j
    using that assms(3,4) chart_sizes[OF assms(1) that] tops_before_nth[OF sz assms(3), of j]
    by (simp add: calc_bottom_nth cumulative_b_after_total)
  ultimately show ?thesis
    using t b c l chart_bottoms_shape(3)[OF assms(1,2)] assms(3)
      chart_all_bottoms[OF assms(1)]
    by simp
qed

theorem total_reset_witness:
  "chart example_chart \<and> 1 < length (bottoms example_chart) \<and>
   2 < segment_count example_chart \<and> total_segments example_chart ! 2 \<and>
   1 < length (layers example_chart) \<and>
   bottoms example_chart ! 1 ! 2 = 5 \<and>
   tops_before example_chart 1 ! 2 = 5 \<and>
   stacked (take 1 (layers example_chart)) 2 = 5 \<and>
   cumulative_b_after example_chart (values_of (layers example_chart ! 1))
     (tops_before example_chart 1) 2 = 5"
proof -
  have h: "chart example_chart" "1 < length (bottoms example_chart)"
    "2 < segment_count example_chart" "total_segments example_chart ! 2"
    using chart_example_chart by (simp_all add: example_chart_eq bottoms_def)
  have v: "bottoms example_chart ! 1 ! 2 = 5"
    by (simp add: example_chart_eq bottoms_def)
  note r = total_reset[OF h]
  have l: "1 < length (layers example_chart)"
    using r by blast
  have a: "bottoms example_chart ! 1 ! 2 = tops_before example_chart 1 ! 2"
    using r by blast
  have b: "tops_before example_chart 1 ! 2 = stacked (take 1 (layers example_chart)) 2"
    using r by blast
  have c: "cumulative_b_after example_chart (values_of (layers example_chart ! 1))
     (tops_before example_chart 1) 2 = tops_before example_chart 1 ! 2"
    using r by blast
  show ?thesis
    using h l v a b c by (simp only: simp_thms)
qed

text \<open>
  Claim C10.  In a chart with at least one segment, whatever the mask says about
  segment 0, the bottom at segment 0 of a drawn layer at position \<open>k\<close> is the sum of
  the cleaned values at segment 0 of the layers below it; for the lowest layer it
  is 0.  Every layer has been drawn when the renderer accepts the keyword arguments
  of all layers; and drawn or not, what \<open>_calc_bottom\<close> returns for a layer over the
  tops of the layers below it has that sum at segment 0.
\<close>

theorem bottom_at_segment_0:
  assumes "chart self" "k < length (bottoms self)" "0 < segment_count self"
  shows "k < length (layers self) \<and> 0 < length (bottoms self ! k) \<and>
     bottoms self ! k ! 0 = stacked (take k (layers self)) 0 \<and> bottoms self ! 0 ! 0 = 0 \<and>
     (accepts_all self (layers self) \<longrightarrow> length (bottoms self) = length (layers self)) \<and>
     (\<forall>j<length (layers self).
        calc_bottom self (values_of (layers self ! j)) (tops_before self j) ! 0 =
          stacked (take j (layers self)) 0)"
proof -
  have sz: "sizes_agree self" using chart_invariant[OF assms(1)] by simp
  have at: "bottoms self ! j ! 0 = stacked (take j (layers self)) 0" if "j < length (bottoms self)" for j
  proof -
    have "bottoms self ! j ! 0 = tops_before self j ! 0"
      using assms(1,3) that chart_sizes[OF assms(1) chart_bottoms_shape(1)[OF assms(1) that]]
      by (simp add: chart_bottom_nth cumulative_b_after_0)
    then show ?thesis using tops_before_nth[OF sz assms(3)] by simp
  qed
  have "0 < length (bottoms self)" using assms(2) by auto
  then have "bottoms self ! 0 ! 0 = 0" using at[of 0] by (simp add: stacked_def)
  moreover have "calc_bottom self (values_of (layers self ! j)) (tops_before self j) ! 0 =
      stacked (take j (layers self)) 0" if "j < length (layers self)" for j
    using that assms(3) chart_sizes[OF assms(1) that] tops_before_nth[OF sz assms(3), of j]
    by (simp add: calc_bottom_nth cumulative_b_after_0)
  ultimately show ?thesis
    using at[OF assms(2)] chart_bottoms_shape(1,3)[OF assms(1,2)] assms(3)
      chart_all_bottoms[OF assms(1)]
    by simp
qed

theorem bottom_at_segment_0_witness:
  "chart example_chart \<and> 1 < length (bottoms example_chart) \<and>
   0 < segment_count example_chart \<and> \<not> total_segments example_chart ! 0 \<and>
   1 < length (layers example_chart) \<and>
   bottoms example_chart ! 1 ! 0 = 5 \<and> stacked (take 1 (layers example_chart)) 0 = 5 \<and>
   bottoms example_chart ! 0 ! 0 = 0"
proof -
  have h: "chart example_chart" "1 < length (bottoms example_chart)"
    "0 < segment_count example_chart"
    using chart_example_chart by (simp_all add: example_chart_eq bottoms_def)
  have v: "stacked (take 1 (layers example_chart)) 0 = 5" "\<not> total_segments example_chart ! 0"
    by (simp_all add: example_chart_eq stacked_def)
  note r = bottom_at_segment_0[OF h]
  have l: "1 < length (layers example_chart)"
    using r by blast
  have a: "bottoms example_chart ! 1 ! 0 = stacked (take 1 (layers example_chart)) 0"
    using r by blast
  have b: "bottoms example_chart ! 0 ! 0 = 0"
    using r by blast
  show ?thesis
    using h l v a b by (simp only: simp_thms)
qed

section \<open>Construction\<close>

lemma init_raises:
  "(\<exists>e. (init raises segment_labels' total_segments' :: error + 'k bridge) = Inl e) \<longleftrightarrow>
   (\<exists>ts. total_segments' = Some ts \<and> ts \<noteq> [] \<and> length ts \<noteq> length segment_labels')"
  by (auto simp: init_def size_mismatch_def split: option.splits)

lemma init_default:
  "init raises segment_labels' None =
     Inr \<lparr>layers = [], segment_labels = segment_labels',
          segment_count = length segment_labels',
          total_segments = replicate (length segment_labels') False,
          ax = \<lparr>xticks = [0..<length segment_labels'], xticklabels = segment_labels',
                 bars = [], bar_raises = raises\<rparr>\<rparr>"
  by (simp add: init_def size_mismatch_def py_or_def set_xticks_def set_xticklabels_def subplots_def)

text \<open>
  Claim C3.  The constructor called with one label and the empty list as mask raises
  nothing: it returns the object whose mask is the default, one \<open>False\<close>.
\<close>

theorem init_empty_mask:
  "init raises [''A''] (Some []) =
     Inr \<lparr>layers = [], segment_labels = [''A''], segment_count = 1,
          total_segments = [False],
          ax = \<lparr>xticks = [0], xticklabels = [''A''], bars = [], bar_raises = raises\<rparr>\<rparr>"
  by (simp add: init_def size_mismatch_def py_or_def set_xticks_def set_xticklabels_def subplots_def)

section \<open>Recomputation\<close>

text \<open>
  Claim C8.  Plotting again what has just been plotted changes nothing: the outcome
  and the object are the same, so every layer has the same bottoms; and plotting
  leaves the layers, the labels, the count and the mask as they are.
\<close>

theorem recomputation_idempotent:
  "plot (snd (plot self)) = plot self \<and>
   bottoms (snd (plot (snd (plot self)))) = bottoms (snd (plot self)) \<and>
   layers (snd (plot self)) = layers self \<and>
   map values_of (layers (snd (plot self))) = map values_of (layers self) \<and>
   total_segments (snd (plot self)) = total_segments self \<and>
   segment_count (snd (plot self)) = segment_count self"
  by (simp add: plot_idem plot_fields)

section \<open>Degenerate inputs\<close>

lemma calc_bottom_all_totals:
  assumes "length tops = n" "length vals = n"
    "total_segments self = replicate n True"
  shows "calc_bottom self vals tops = tops"
proof (rule nth_equalityI)
  show "length (calc_bottom self vals tops) = length tops"
    using assms by (simp add: calc_bottom_length)
  fix i assume "i < length (calc_bottom self vals tops)"
  then have i: "i < n" using assms by (simp add: calc_bottom_length)
  then show "calc_bottom self vals tops ! i = tops ! i"
    using assms by (simp add: calc_bottom_nth cumulative_b_after_total)
qed

text \<open>
  Claim C9.  \<open>_calc_bottom\<close> has no error branch: its result is a list. When mask,
  tops and values have the same length, so has the result, whatever the mask is; when
  every segment is a total the result is the tops; without segments it is empty. The
  constructor accepts an empty list of labels, and \<open>add_layer\<close> on that object accepts
  the empty list of values: the call raises only what the renderer raises for the
  keyword arguments, and when that is nothing the empty bottoms are plotted.
\<close>

theorem calc_bottom_degenerate:
  "(length (total_segments (self :: 'k bridge)) = length vals \<and> length tops = length vals \<longrightarrow>
      length (calc_bottom self vals tops) = length vals) \<and>
   (total_segments self = replicate (length vals) True \<and> length tops = length vals \<longrightarrow>
      calc_bottom self vals tops = tops) \<and>
   calc_bottom self [] tops = [] \<and>
   (\<exists>empty :: 'k bridge.
      init raises [] None = Inr empty \<and> segment_count empty = 0 \<and>
      fst (add_layer empty [] add_to_bottom kw) = raises kw \<and>
      bottoms (snd (add_layer empty [] add_to_bottom kw)) =
        (if raises kw = None then [[]] else []))"
proof -
  have a: "length (calc_bottom self vals tops) = length vals"
    if "length (total_segments self) = length vals" "length tops = length vals"
    using that by (simp add: calc_bottom_length)
  have b: "calc_bottom self vals tops = tops"
    if "total_segments self = replicate (length vals) True" "length tops = length vals"
    using that calc_bottom_all_totals[of tops "length vals" vals self] by simp
  have c: "calc_bottom self [] tops = []"
    using calc_bottom_length[of self "[]" tops] by simp
  let ?empty = "\<lparr>layers = [], segment_labels = [], segment_count = 0,
          total_segments = [],
          ax = \<lparr>xticks = [], xticklabels = [], bars = [], bar_raises = raises\<rparr>\<rparr> :: 'k bridge"
  have "init raises [] None = Inr ?empty"
    by (simp add: init_default)
  moreover have "fst (add_layer ?empty [] add_to_bottom kw) = raises kw"
    by (cases "raises kw") (simp_all add: add_layer_def plot_def clear_def set_xticks_def
        set_xticklabels_def bar_def Let_def)
  moreover have "bottoms (snd (add_layer ?empty [] add_to_bottom kw)) =
        (if raises kw = None then [[]] else [])"
    by (cases "raises kw") (simp_all add: add_layer_def plot_def clear_def set_xticks_def
        set_xticklabels_def bar_def Let_def bottoms_def calc_bottom_def nan_to_num_def
        insert0_drop_last_def zip_add_def)
  ultimately have d: "\<exists>empty :: 'k bridge.
      init raises [] None = Inr empty \<and> segment_count empty = 0 \<and>
      fst (add_layer empty [] add_to_bottom kw) = raises kw \<and>
      bottoms (snd (add_layer empty [] add_to_bottom kw)) =
        (if raises kw = None then [[]] else [])"
    by (intro exI[of _ ?empty]) simp
  show ?thesis using a b c d by blast
qed

theorem calc_bottom_degenerate_witness:
  "length (total_segments example_start) = length [Num 1, NaN, Num 3] \<and>
   length [2, 4, 6 :: real] = length [Num 1, NaN, Num 3] \<and>
   length (calc_bottom example_start [Num 1, NaN, Num 3] [2, 4, 6]) = 3 \<and>
   total_segments (example_start\<lparr>total_segments := [True, True, True]\<rparr>) =
     replicate (length [Num 1, NaN, Num 3]) True \<and>
   calc_bottom (example_start\<lparr>total_segments := [True, True, True]\<rparr>)
     [Num 1, NaN, Num 3] [2, 4, 6] = [2, 4, 6] \<and>
   calc_bottom example_start [] [] = []"
proof -
  have h: "length (total_segments example_start) = length [Num 1, NaN, Num 3]"
    "length [2, 4, 6 :: real] = length [Num 1, NaN, Num 3]"
    by (simp_all add: example_start_def)
  have g: "total_segments (example_start\<lparr>total_segments := [True, True, True]\<rparr>) =
     replicate (length [Num 1, NaN, Num 3]) True"
    by (simp add: numeral_3_eq_3)
  have a: "length (calc_bottom example_start [Num 1, NaN, Num 3] [2, 4, 6]) = 3"
    using calc_bottom_degenerate[of example_start "[Num 1, NaN, Num 3]" "[2, 4, 6]"
        accept_any True "()"] h
    by simp
  have b: "calc_bottom (example_start\<lparr>total_segments := [True, True, True]\<rparr>)
     [Num 1, NaN, Num 3] [2, 4, 6] = [2, 4, 6]"
    using calc_bottom_degenerate[of "example_start\<lparr>total_segments := [True, True, True]\<rparr>"
        "[Num 1, NaN, Num 3]" "[2, 4, 6]" accept_any True "()"] g h(2) by blast
  have c: "calc_bottom example_start [] [] = []"
    using calc_bottom_degenerate[of example_start "[]" "[]" accept_any True "()"] by blast
  show ?thesis using h g a b c by (simp only: simp_thms)
qed

section \<open>Validation in \<open>add_layer\<close>\<close>





section \<open>The first layer\<close>

lemma example_plain_init: "init accept_any [''A'', ''B'', ''C''] None = Inr example_plain"
  by (simp add: init_default example_plain_def numeral_3_eq_3)

lemma cumulative_b_after_cong:
  "total_segments self' = total_segments self \<Longrightarrow>
   cumulative_b_after self' vals tops i = cumulative_b_after self vals tops i"
  by (simp add: cumulative_b_after_def)

lemma cumulative_b_after_increments:
  assumes "total_segments self = replicate n False" "length vals = n" "i < n"
  shows "cumulative_b_after self vals (replicate n 0) i = foldl (+) 0 (take i (nan_to_num vals))"
  using assms(3)
proof (induction i)
  case 0
  then show ?case using assms(1,2) by (simp add: cumulative_b_after_0)
next
  case (Suc i)
  then have "cumulative_b_after self vals (replicate n 0) (Suc i) =
      foldl (+) 0 (take i (nan_to_num vals)) + nan_to_num1 (vals ! i)"
    using assms(1,2) by (simp add: cumulative_b_after_Suc)
  then show ?case
    using Suc.prems assms(2)
    by (simp add: take_Suc_conv_app_nth nan_to_num_length nan_to_num_nth)
qed

lemma calc_bottom_increments:
  assumes "total_segments self = replicate n False" "length vals = n"
  shows "calc_bottom self vals (replicate n 0) =
     map (\<lambda>i. foldl (+) 0 (take i (nan_to_num vals))) [0..<n]"
proof (rule nth_equalityI)
  show "length (calc_bottom self vals (replicate n 0)) =
      length (map (\<lambda>i. foldl (+) 0 (take i (nan_to_num vals))) [0..<n])"
    using assms by (simp add: calc_bottom_length)
  fix i assume "i < length (calc_bottom self vals (replicate n 0))"
  then have i: "i < n" using assms by (simp add: calc_bottom_length)
  then show "calc_bottom self vals (replicate n 0) ! i =
      map (\<lambda>i. foldl (+) 0 (take i (nan_to_num vals))) [0..<n] ! i"
    using assms by (simp add: calc_bottom_nth cumulative_b_after_increments)
qed

lemma nan_to_num_finite: "nan_to_num (map Num w) = w"
  by (simp add: nan_to_num_def comp_def)

text \<open>The plot of a single layer that the renderer accepts.\<close>

lemma plot_single:
  assumes "layers self = [l]" "accepts self (bar_args l)"
  shows "fst (plot self) = None"
    and "bottoms (snd (plot self)) =
      [calc_bottom self (values_of l) (replicate (segment_count self) 0)]"
proof -
  have acc: "accepts_all self (layers self)"
    using assms by (simp add: accepts_all_def)
  show ok: "fst (plot self) = None"
    using plot_result(1)[of self] acc by simp
  have "length (bars (ax (snd (plot self)))) = 1"
    using plot_result(2)[OF ok] assms(1) by simp
  then obtain b where b: "bars (ax (snd (plot self))) = [b]"
    by (cases "bars (ax (snd (plot self)))") auto
  have "bars (ax (snd (plot self))) ! 0 =
     \<lparr>bar_x = [0..<segment_count self], bar_height = values_of (layers self ! 0),
      bar_bottom = calc_bottom self (values_of (layers self ! 0)) (tops_before self 0),
      bar_kwargs = bar_args (layers self ! 0)\<rparr>"
    using plot_bar_nth[of 0 self] b by simp
  then show "bottoms (snd (plot self)) =
      [calc_bottom self (values_of l) (replicate (segment_count self) 0)]"
    using b assms(1) by (simp add: bottoms_def tops_before_0)
qed

text \<open>
  Claim C5, as amended.  The object the constructor returns has no layers and nothing
  plotted.  When its mask is all false and the renderer accepts the keyword arguments,
  the first layer added, with as many values as there are segments, is accepted, and
  its bottoms are the sums, from left to right, of the cleaned values before each
  segment: 0 at segment 0 and \<open>c[0] + \<dots> + c[i-1]\<close> at segment \<open>i\<close>, where cleaning
  turns NaN into 0 and an infinity into the largest or smallest finite number.  For
  a layer of finite numbers \<open>w\<close> these are the sums \<open>w[0] + \<dots> + w[i-1]\<close>.
\<close>

theorem first_layer_prefix_sums:
  assumes "init raises segment_labels' total_segments' = Inr self"
  shows "layers self = [] \<and> bottoms self = [] \<and>
     (total_segments self = replicate (segment_count self) False \<and>
      length vals = segment_count self \<and> raises kw = None \<longrightarrow>
        fst (add_layer self vals add_to_bottom kw) = None \<and>
        bottoms (snd (add_layer self vals add_to_bottom kw)) =
          [map (\<lambda>i. foldl (+) 0 (take i (nan_to_num vals))) [0..<length vals]]) \<and>
     (total_segments self = replicate (segment_count self) False \<and>
      length w = segment_count self \<and> raises kw = None \<longrightarrow>
        fst (add_layer self (map Num w) add_to_bottom kw) = None \<and>
        bottoms (snd (add_layer self (map Num w) add_to_bottom kw)) =
          [map (\<lambda>i. foldl (+) 0 (take i w)) [0..<length w]])"
proof -
  have i: "sizes_agree self" "plot self = (None, self)" "layers self = []"
    "bars (ax self) = []" "bar_raises (ax self) = raises"
    using sizes_agree_init[OF assms] by simp_all
  have e: "bottoms self = []"
    using i(4) by (simp add: bottoms_def)
  have main: "fst (add_layer self v add_to_bottom kw) = None \<and>
        bottoms (snd (add_layer self v add_to_bottom kw)) =
          [map (\<lambda>i. foldl (+) 0 (take i (nan_to_num v))) [0..<length v]]"
    if m: "total_segments self = replicate (segment_count self) False"
      and n: "length v = segment_count self" and k: "raises kw = None"
    for v
  proof -
    let ?l = "\<lparr>values_of = v, bar_args = kw\<rparr>"
    let ?s1 = "self\<lparr>layers := [?l]\<rparr>"
    have a: "add_layer self v add_to_bottom kw = plot ?s1"
      using n i(3) by (simp add: add_layer_def Let_def)
    have acc: "accepts ?s1 (bar_args ?l)"
      using k i(5) by (simp add: accepts_def)
    have l1: "layers ?s1 = [?l]"
      by simp
    have "bottoms (snd (plot ?s1)) =
        [calc_bottom ?s1 (values_of ?l) (replicate (segment_count ?s1) 0)]"
      using l1 acc by (rule plot_single(2))
    also have "\<dots> = [calc_bottom ?s1 v (replicate (length v) 0)]"
      using n by simp
    also have "\<dots> = [map (\<lambda>i. foldl (+) 0 (take i (nan_to_num v))) [0..<length v]]"
      using calc_bottom_increments[of ?s1 "length v" v] m n by simp
    finally have "bottoms (snd (plot ?s1)) =
        [map (\<lambda>i. foldl (+) 0 (take i (nan_to_num v))) [0..<length v]]" .
    moreover have "fst (plot ?s1) = None"
      using l1 acc by (rule plot_single(1))
    ultimately show ?thesis by (simp add: a)
  qed
  have fin: "fst (add_layer self (map Num w) add_to_bottom kw) = None \<and>
        bottoms (snd (add_layer self (map Num w) add_to_bottom kw)) =
          [map (\<lambda>i. foldl (+) 0 (take i w)) [0..<length w]]"
    if "total_segments self = replicate (segment_count self) False"
      "length w = segment_count self" "raises kw = None"
    using main[of "map Num w"] that by (simp add: nan_to_num_finite)
  show ?thesis using i(3) e main[of vals] fin by blast
qed

theorem first_layer_prefix_sums_witness:
  "init accept_any [''A'', ''B'', ''C''] None = Inr example_plain \<and>
   layers example_plain = [] \<and> bottoms example_plain = [] \<and>
   total_segments example_plain = replicate (segment_count example_plain) False \<and>
   length [10, 20, 30 :: real] = segment_count example_plain \<and>
   accept_any () = None \<and>
   fst (add_layer example_plain (map Num [10, 20, 30]) True ()) = None \<and>
   bottoms (snd (add_layer example_plain (map Num [10, 20, 30]) True ())) = [[0, 10, 30]]"
proof -
  have h: "total_segments example_plain = replicate (segment_count example_plain) False"
    "length [10, 20, 30 :: real] = segment_count example_plain"
    "accept_any () = None"
    by (simp_all add: example_plain_def numeral_3_eq_3 accept_any_def)
  note r = first_layer_prefix_sums[OF example_plain_init, of "[]" "()" True "[10, 20, 30]"]
  have a: "layers example_plain = []" "bottoms example_plain = []"
    using r by blast+
  have b: "fst (add_layer example_plain (map Num [10, 20, 30]) True ()) = None"
    using r h by blast
  have "bottoms (snd (add_layer example_plain (map Num [10, 20, 30]) True ())) =
          [map (\<lambda>i. foldl (+) 0 (take i [10, 20, 30 :: real])) [0..<length [10, 20, 30 :: real]]]"
    using r h by blast
  also have "\<dots> = [[0, 10, 30]]"
    by (simp add: upt_rec)
  finally show ?thesis
    using example_plain_init h a b by (simp only: simp_thms)
qed

text \<open>
  Claim C5 as stated: the layer (inf, 0, 0) has no NaN, and on the chart with an
  all-false mask its bottom at segment 1 is the largest finite number, not the value
  at segment 0, which is infinite.
\<close>

theorem first_layer_infinite:
  "init accept_any [''A'', ''B'', ''C''] None = Inr example_plain \<and>
   total_segments example_plain = [False, False, False] \<and>
   NaN \<notin> set [PInf, Num 0, Num 0] \<and>
   [PInf, Num 0, Num 0] ! 0 = PInf \<and>
   add_layer example_plain [PInf, Num 0, Num 0] True () =
     (None, example_plain\<lparr>
        layers := [\<lparr>values_of = [PInf, Num 0, Num 0], bar_args = ()\<rparr>],
        ax := \<lparr>xticks = [0, 1, 2], xticklabels = [''A'', ''B'', ''C''],
                bars = [\<lparr>bar_x = [0, 1, 2], bar_height = [PInf, Num 0, Num 0],
                         bar_bottom = [0, float_max, float_max], bar_kwargs = ()\<rparr>],
                bar_raises = accept_any\<rparr>\<rparr>) \<and>
   bottoms (snd (add_layer example_plain [PInf, Num 0, Num 0] True ())) =
     [[0, float_max, float_max]] \<and>
   float_max < 2 ^ 1024"
proof -
  have a: "add_layer example_plain [PInf, Num 0, Num 0] True () =
     (None, example_plain\<lparr>
        layers := [\<lparr>values_of = [PInf, Num 0, Num 0], bar_args = ()\<rparr>],
        ax := \<lparr>xticks = [0, 1, 2], xticklabels = [''A'', ''B'', ''C''],
                bars = [\<lparr>bar_x = [0, 1, 2], bar_height = [PInf, Num 0, Num 0],
                         bar_bottom = [0, float_max, float_max], bar_kwargs = ()\<rparr>],
                bar_raises = accept_any\<rparr>\<rparr>)"
    by (simp add: eval_defs example_plain_def numeral_3_eq_3)
  have f: "float_max < 2 ^ 1024"
    by (simp add: float_max_def)
  show ?thesis
    using example_plain_init f by (simp add: a bottoms_def) (simp add: example_plain_def)
qed

section \<open>Gaps\<close>

lemma example_gap_eq: "example_gap = \<lparr>layers =
        [\<lparr>values_of = [Num 5, Num 5, Num 5], bar_args = ()\<rparr>,
         \<lparr>values_of = [Num 1, NaN, Num 1], bar_args = ()\<rparr>],
        segment_labels = [''A'', ''B'', ''C''], segment_count = 3,
        total_segments = [False, False, True],
        ax = \<lparr>xticks = [0, 1, 2], xticklabels = [''A'', ''B'', ''C''],
                bars =
                  [\<lparr>bar_x = [0, 1, 2], bar_height = [Num 5, Num 5, Num 5],
                      bar_bottom = [0, 5, 0], bar_kwargs = ()\<rparr>,
                   \<lparr>bar_x = [0, 1, 2], bar_height = [Num 1, NaN, Num 1],
                      bar_bottom = [5, 11, 5], bar_kwargs = ()\<rparr>],
                bar_raises = accept_any\<rparr>\<rparr>"
  by (simp add: eval_defs example_gap_def example_one_eq numeral_3_eq_3)

lemma example_gap_add: "add_layer example_one [Num 1, NaN, Num 1] False () = (None, example_gap)"
  by (simp add: eval_defs example_gap_eq example_one_eq numeral_3_eq_3)

text \<open>
  Claim C6.  A layer with NaN at segment \<open>k\<close> is added to a chart.  The layer stored
  at its position \<open>p\<close> holds the values as given, NaN at \<open>k\<close>; the tops at \<open>k\<close> after
  this layer are the tops at \<open>k\<close> before it; and the shifted value at \<open>k + 1\<close> is 0.
  The call returns normally exactly when the renderer accepts the keyword arguments
  of all layers, and then the height handed to the renderer has NaN at \<open>k\<close>, and the
  bottom of an increment at \<open>k + 1\<close> is the bottom at \<open>k\<close> plus the tops at \<open>k + 1\<close>.
\<close>

theorem gap_tolerance:
  assumes "chart self" "length vals = segment_count self" "k < length vals" "vals ! k = NaN"
    "add_layer self vals add_to_bottom kw = (r, self')"
    "p = (if add_to_bottom then 0 else length (layers self))"
  shows "p < length (layers self') \<and>
     values_of (layers self' ! p) = vals \<and>
     values_of (layers self' ! p) ! k = NaN \<and>
     tops_before self' (Suc p) ! k = tops_before self' p ! k \<and>
     (Suc k < length vals \<longrightarrow> insert0_drop_last (nan_to_num vals) ! Suc k = 0) \<and>
     (r = None \<longleftrightarrow> accepts self kw \<and> accepts_all self (layers self)) \<and>
     (r = None \<longrightarrow>
        p < length (bottoms self') \<and>
        length (bottoms self' ! p) = length vals \<and>
        bar_height (bars (ax self') ! p) ! k = NaN \<and>
        (Suc k < length vals \<and> \<not> total_segments self' ! Suc k \<longrightarrow>
           bottoms self' ! p ! Suc k = bottoms self' ! p ! k + tops_before self' p ! Suc k))"
proof -
  let ?l = "\<lparr>values_of = vals, bar_args = kw\<rparr>"
  let ?ls = "if add_to_bottom then ?l # layers self else layers self @ [?l]"
  let ?s1 = "self\<lparr>layers := ?ls\<rparr>"
  have rs: "(r, self') = plot ?s1"
    using add_layer_cases[OF assms(5)] assms(2) by auto
  then have r: "r = fst (plot ?s1)" and s': "self' = snd (plot ?s1)"
    by (metis fst_conv, metis snd_conv)
  have ls: "layers self' = ?ls"
    by (simp add: s' plot_fields)
  have p: "p < length (layers self')" and lp: "layers self' ! p = ?l"
    using assms(6) by (auto simp: ls)
  have c: "chart self'"
    using assms(1,5) by (rule chart_add)
  have sz: "sizes_agree self'"
    using chart_invariant[OF c] by simp
  have n: "segment_count self' = length vals"
    using assms(2) by (simp add: s' plot_fields)
  have k: "k < segment_count self'"
    using assms(3) n by simp
  have t: "tops_before self' (Suc p) ! k = tops_before self' p ! k"
    using tops_before_Suc[OF sz p k] lp assms(4) by simp
  have sh: "insert0_drop_last (nan_to_num vals) ! Suc k = 0" if "Suc k < length vals"
    using that assms(3,4) by (simp add: insert0_drop_last_Suc nan_to_num_length nan_to_num_nth)
  have "accepts_all ?s1 (layers ?s1) \<longleftrightarrow> accepts self kw \<and> accepts_all self (layers self)"
    by (auto simp: accepts_all_def accepts_def)
  then have ok: "r = None \<longleftrightarrow> accepts self kw \<and> accepts_all self (layers self)"
    using plot_result(1)[of ?s1] by (simp add: r)
  have drawn: "p < length (bottoms self') \<and>
        length (bottoms self' ! p) = length vals \<and>
        bar_height (bars (ax self') ! p) ! k = NaN \<and>
        (Suc k < length vals \<and> \<not> total_segments self' ! Suc k \<longrightarrow>
           bottoms self' ! p ! Suc k = bottoms self' ! p ! k + tops_before self' p ! Suc k)"
    if none: "r = None"
  proof -
    have "length (bars (ax self')) = length (layers self')"
      using plot_result(2)[of ?s1] none by (simp add: r s' plot_fields)
    then have pb: "p < length (bottoms self')" and pbar: "p < length (bars (ax self'))"
      using p by (simp_all add: bottoms_def)
    have h: "bar_height (bars (ax self') ! p) = vals"
      using chart_bar_nth[OF c pbar] lp by simp
    have len: "length (bottoms self' ! p) = length vals"
      using chart_bottoms_shape(3)[OF c pb] n by simp
    have b: "bottoms self' ! p ! Suc k = bottoms self' ! p ! k + tops_before self' p ! Suc k"
      if "Suc k < length vals" "\<not> total_segments self' ! Suc k"
    proof -
      have "bottoms self' ! p ! Suc k =
          cumulative_b_after self' vals (tops_before self' p) (Suc k)"
        using chart_bottom_nth[OF c pb, of "Suc k"] that(1) n lp by simp
      also have "\<dots> = cumulative_b_after self' vals (tops_before self' p) k +
          (tops_before self' p ! Suc k + nan_to_num1 (vals ! k))"
        using that n chart_sizes[OF c p] lp by (simp add: cumulative_b_after_Suc)
      also have "cumulative_b_after self' vals (tops_before self' p) k = bottoms self' ! p ! k"
        using chart_bottom_nth[OF c pb k] lp by simp
      finally show ?thesis using assms(4) by simp
    qed
    show ?thesis using pb h len b assms(4) by simp
  qed
  show ?thesis
    using p lp t sh ok drawn assms(4) by simp
qed

theorem gap_tolerance_witness:
  "chart example_one \<and> length [Num 1, NaN, Num 1] = segment_count example_one \<and>
   1 < length [Num 1, NaN, Num 1] \<and> [Num 1, NaN, Num 1] ! 1 = NaN \<and>
   add_layer example_one [Num 1, NaN, Num 1] False () = (None, example_gap) \<and>
   1 = (if False then 0 else length (layers example_one)) \<and>
   values_of (layers example_gap ! 1) ! 1 = NaN \<and>
   bar_height (bars (ax example_gap) ! 1) ! 1 = NaN \<and>
   tops_before example_gap 1 ! 1 = 5 \<and>
   tops_before example_gap (Suc 1) ! 1 = 5 \<and>
   insert0_drop_last (nan_to_num [Num 1, NaN, Num 1]) ! Suc 1 = 0"
proof -
  have h: "length [Num 1, NaN, Num 1] = segment_count example_one"
    "1 < length [Num 1, NaN, Num 1]" "[Num 1, NaN, Num 1] ! 1 = NaN"
    "1 = (if False then 0 else length (layers example_one))"
    by (simp_all add: example_one_eq)
  have g: "Suc 1 < length [Num 1, NaN, Num 1]"
    by simp
  note r = gap_tolerance[OF chart_example_one h(1-3) example_gap_add h(4)]
  have a: "values_of (layers example_gap ! 1) ! 1 = NaN"
    "bar_height (bars (ax example_gap) ! 1) ! 1 = NaN"
    "tops_before example_gap (Suc 1) ! 1 = tops_before example_gap 1 ! 1"
    using r by blast+
  have b: "insert0_drop_last (nan_to_num [Num 1, NaN, Num 1]) ! Suc 1 = 0"
    using r g by blast
  have v: "tops_before example_gap 1 ! 1 = 5"
    by (simp add: example_gap_eq tops_before_def nan_to_num_def zip_add_def numeral_3_eq_3 Let_def)
  show ?thesis
    using chart_example_one h example_gap_add a b v by (simp only: simp_thms)
qed

section \<open>A layer put under another\<close>

lemma example_under_eq: "example_under = \<lparr>layers =
        [\<lparr>values_of = [Num 1, Num 1, Num 1], bar_args = ()\<rparr>,
         \<lparr>values_of = [Num 5, Num 5, Num 5], bar_args = ()\<rparr>],
        segment_labels = [''A'', ''B'', ''C''], segment_count = 3,
        total_segments = [False, False, True],
        ax = \<lparr>xticks = [0, 1, 2], xticklabels = [''A'', ''B'', ''C''],
                bars =
                  [\<lparr>bar_x = [0, 1, 2], bar_height = [Num 1, Num 1, Num 1],
                      bar_bottom = [0, 1, 0], bar_kwargs = ()\<rparr>,
                   \<lparr>bar_x = [0, 1, 2], bar_height = [Num 5, Num 5, Num 5],
                      bar_bottom = [1, 7, 1], bar_kwargs = ()\<rparr>],
                bar_raises = accept_any\<rparr>\<rparr>"
  by (simp add: eval_defs example_under_def example_one_eq numeral_3_eq_3)

lemma example_flat_eq: "example_flat = \<lparr>layers =
        [\<lparr>values_of = [Num 0, Num 0, Num 0], bar_args = ()\<rparr>,
         \<lparr>values_of = [Num 5, Num 5, Num 5], bar_args = ()\<rparr>],
        segment_labels = [''A'', ''B'', ''C''], segment_count = 3,
        total_segments = [False, False, True],
        ax = \<lparr>xticks = [0, 1, 2], xticklabels = [''A'', ''B'', ''C''],
                bars =
                  [\<lparr>bar_x = [0, 1, 2], bar_height = [Num 0, Num 0, Num 0],
                      bar_bottom = [0, 0, 0], bar_kwargs = ()\<rparr>,
                   \<lparr>bar_x = [0, 1, 2], bar_height = [Num 5, Num 5, Num 5],
                      bar_bottom = [0, 5, 0], bar_kwargs = ()\<rparr>],
                bar_raises = accept_any\<rparr>\<rparr>"
  by (simp add: eval_defs example_flat_def example_one_eq numeral_3_eq_3)

lemma example_under_add: "add_layer example_one [Num 1, Num 1, Num 1] True () = (None, example_under)"
  by (simp add: eval_defs example_under_eq example_one_eq numeral_3_eq_3)

lemma example_flat_add: "add_layer example_one [Num 0, Num 0, Num 0] True () = (None, example_flat)"
  by (simp add: eval_defs example_flat_eq example_one_eq numeral_3_eq_3)

lemma zip_add_zeros: "length xs = n \<Longrightarrow> zip_add (replicate n 0) xs = xs"
  by (rule nth_equalityI) (simp_all add: zip_add_length zip_add_nth)

text \<open>
  Claim C7, as amended.  A chart has one layer, and a second layer of the right size is
  added with \<open>add_to_bottom=True\<close>.  The new layer is first in the list and the old
  one second (with \<open>add_to_bottom=False\<close> the new one is last), the call is \<open>_plot\<close>
  on the object with that list, the old layer's values are as before, and the tops
  under the old layer are now the cleaned values of the new one.  The call returns
  normally exactly when the renderer accepts the keyword arguments of both layers.
  Then both layers have bottoms, and those of the old layer, which were computed over
  tops of zero, are computed anew over the new tops: at segment 0 and at every total
  segment the bottom was 0 and is now the new layer's cleaned value there; at every
  other segment it was the bottom to its left plus the old layer's cleaned value to
  its left, and now is the bottom to its left plus the new layer's cleaned value
  there plus the old layer's cleaned value to its left.
\<close>

theorem bottom_insertion:
  assumes "chart self" "layers self = [l]" "length vals = segment_count self"
    "add_layer self vals True kw = (r, self')"
  shows "layers self' = [\<lparr>values_of = vals, bar_args = kw\<rparr>, l] \<and>
     layers (snd (add_layer self vals False kw)) = [l, \<lparr>values_of = vals, bar_args = kw\<rparr>] \<and>
     (r, self') = plot (self\<lparr>layers := \<lparr>values_of = vals, bar_args = kw\<rparr> # layers self\<rparr>) \<and>
     values_of (layers self' ! 1) = values_of (layers self ! 0) \<and>
     tops_before self 0 = replicate (segment_count self) 0 \<and>
     tops_before self' 1 = nan_to_num vals \<and>
     (r = None \<longleftrightarrow> accepts self kw \<and> accepts self (bar_args l)) \<and>
     (r = None \<longrightarrow>
        length (bottoms self) = 1 \<and> length (bottoms self') = 2 \<and>
        length (bottoms self ! 0) = segment_count self \<and>
        length (bottoms self' ! 1) = segment_count self \<and>
        bottoms self ! 0 = calc_bottom self (values_of l) (replicate (segment_count self) 0) \<and>
        bottoms self' ! 1 = calc_bottom self (values_of l) (nan_to_num vals) \<and>
        (\<forall>i<segment_count self. i = 0 \<or> total_segments self ! i \<longrightarrow>
           bottoms self ! 0 ! i = 0 \<and> bottoms self' ! 1 ! i = nan_to_num1 (vals ! i)) \<and>
        (\<forall>i. Suc i < segment_count self \<and> \<not> total_segments self ! Suc i \<longrightarrow>
           bottoms self ! 0 ! Suc i =
             bottoms self ! 0 ! i + nan_to_num1 (values_of l ! i) \<and>
           bottoms self' ! 1 ! Suc i =
             bottoms self' ! 1 ! i +
               (nan_to_num1 (vals ! Suc i) + nan_to_num1 (values_of l ! i))))"
proof -
  let ?new = "\<lparr>values_of = vals, bar_args = kw\<rparr>"
  let ?s1 = "self\<lparr>layers := ?new # layers self\<rparr>"
  let ?n = "segment_count self"
  let ?z = "replicate ?n (0::real)"
  let ?t = "nan_to_num vals"
  have rs: "(r, self') = plot ?s1"
    using add_layer_cases[OF assms(4)] assms(3) by auto
  then have r: "r = fst (plot ?s1)" and s': "self' = snd (plot ?s1)"
    by (metis fst_conv, metis snd_conv)
  have ls: "layers self' = [?new, l]"
    by (simp add: s' plot_fields assms(2))
  have top: "layers (snd (add_layer self vals False kw)) = [l, ?new]"
    using assms(2,3) by (simp add: add_layer_def Let_def plot_fields)
  have c: "chart self'"
    using assms(1,4) by (rule chart_add)
  have f: "total_segments self' = total_segments self" "segment_count self' = ?n"
    by (simp_all add: s' plot_fields)
  have k0: "0 < length (layers self)" and k1: "1 < length (layers self')"
    using assms(2) ls by simp_all
  have sizes: "length (total_segments self) = ?n" "length (values_of l) = ?n"
    using chart_sizes[OF assms(1) k0] assms(2) by simp_all
  have t1: "tops_before self' 1 = ?t"
    using assms(3) by (simp add: tops_before_def ls f zip_add_zeros nan_to_num_length)
  have "accepts_all ?s1 (layers ?s1) \<longleftrightarrow> accepts self kw \<and> accepts self (bar_args l)"
    by (simp add: accepts_all_def accepts_def assms(2))
  then have ok: "r = None \<longleftrightarrow> accepts self kw \<and> accepts self (bar_args l)"
    using plot_result(1)[of ?s1] by (simp add: r)
  have drawn: "length (bottoms self) = 1 \<and> length (bottoms self') = 2 \<and>
        length (bottoms self ! 0) = ?n \<and> length (bottoms self' ! 1) = ?n \<and>
        bottoms self ! 0 = calc_bottom self (values_of l) ?z \<and>
        bottoms self' ! 1 = calc_bottom self (values_of l) ?t \<and>
        (\<forall>i<?n. i = 0 \<or> total_segments self ! i \<longrightarrow>
           bottoms self ! 0 ! i = 0 \<and> bottoms self' ! 1 ! i = nan_to_num1 (vals ! i)) \<and>
        (\<forall>i. Suc i < ?n \<and> \<not> total_segments self ! Suc i \<longrightarrow>
           bottoms self ! 0 ! Suc i =
             bottoms self ! 0 ! i + nan_to_num1 (values_of l ! i) \<and>
           bottoms self' ! 1 ! Suc i =
             bottoms self' ! 1 ! i +
               (nan_to_num1 (vals ! Suc i) + nan_to_num1 (values_of l ! i)))"
    if none: "r = None"
  proof -
    have "accepts_all self (layers self)"
      using ok none by (simp add: accepts_all_def assms(2))
    then have n0: "length (bottoms self) = 1"
      using chart_all_bottoms[OF assms(1)] assms(2) by simp
    have n1: "length (bottoms self') = 2"
      using plot_result(2)[of ?s1] none by (simp add: r s' bottoms_def assms(2))
    define B0 where "B0 = bottoms self ! 0"
    define B1 where "B1 = bottoms self' ! 1"
    have b0: "B0 = calc_bottom self (values_of l) ?z"
      unfolding B0_def
      using chart_bottoms_shape(2)[OF assms(1), of 0] n0 assms(2) by (simp add: tops_before_0)
    have "B1 = calc_bottom self' (values_of l) ?t"
      unfolding B1_def
      using chart_bottoms_shape(2)[OF c, of 1] n1 ls t1 by simp
    then have b1: "B1 = calc_bottom self (values_of l) ?t"
      using calc_bottom_cong[OF f(1)] by simp
    have len: "length B0 = ?n" "length B1 = ?n"
      using sizes assms(3) by (simp_all add: b0 b1 calc_bottom_length nan_to_num_length)
    have at0: "B0 ! i = cumulative_b_after self (values_of l) ?z i"
      and at1: "B1 ! i = cumulative_b_after self (values_of l) ?t i"
      if "i < ?n" for i
      using that sizes assms(3) by (simp_all add: b0 b1 calc_bottom_nth nan_to_num_length)
    have reset: "B0 ! i = 0 \<and> B1 ! i = nan_to_num1 (vals ! i)"
      if i: "i < ?n" and or: "i = 0 \<or> total_segments self ! i" for i
    proof (cases "total_segments self ! i")
      case True
      then show ?thesis
        using i sizes assms(3)
        by (simp add: at0 at1 cumulative_b_after_total nan_to_num_length nan_to_num_nth)
    next
      case False
      then have "i = 0" using or by simp
      then show ?thesis
        using i sizes assms(3)
        by (simp add: at0 at1 cumulative_b_after_0 nan_to_num_length nan_to_num_nth)
    qed
    have step: "B0 ! Suc i = B0 ! i + nan_to_num1 (values_of l ! i) \<and>
           B1 ! Suc i = B1 ! i + (nan_to_num1 (vals ! Suc i) + nan_to_num1 (values_of l ! i))"
      if i: "Suc i < ?n" and inc: "\<not> total_segments self ! Suc i" for i
    proof -
      have i': "i < ?n" using i by simp
      show ?thesis
        using i inc sizes assms(3)
        by (simp add: at0[OF i] at1[OF i] at0[OF i'] at1[OF i'] cumulative_b_after_Suc
            nan_to_num_length nan_to_num_nth)
    qed
    show ?thesis
      unfolding B0_def[symmetric] B1_def[symmetric]
      using n0 n1 len b0 b1 reset step by blast
  qed
  have v: "values_of (layers self' ! 1) = values_of (layers self ! 0)"
    using ls assms(2) by simp
  have z: "tops_before self 0 = replicate (segment_count self) 0"
    by (rule tops_before_0)
  show ?thesis
    using ls top rs v z t1 ok drawn by blast
qed

theorem bottom_insertion_witness:
  "chart example_one \<and>
   layers example_one = [\<lparr>values_of = [Num 5, Num 5, Num 5], bar_args = ()\<rparr>] \<and>
   length [Num 1, Num 1, Num 1] = segment_count example_one \<and>
   add_layer example_one [Num 1, Num 1, Num 1] True () = (None, example_under) \<and>
   layers example_under =
     [\<lparr>values_of = [Num 1, Num 1, Num 1], bar_args = ()\<rparr>,
      \<lparr>values_of = [Num 5, Num 5, Num 5], bar_args = ()\<rparr>] \<and>
   tops_before example_under 1 = [1, 1, 1] \<and>
   2 < segment_count example_one \<and> total_segments example_one ! 2 \<and>
   bottoms example_one ! 0 ! 2 = 0 \<and> bottoms example_under ! 1 ! 2 = 1 \<and>
   Suc 0 < segment_count example_one \<and> \<not> total_segments example_one ! Suc 0 \<and>
   bottoms example_under ! 1 ! 0 = 1 \<and>
   bottoms example_under ! 1 ! Suc 0 = 1 + (1 + 5) \<and>
   bottoms example_one ! 0 = [0, 5, 0] \<and> bottoms example_under ! 1 = [1, 7, 1]"
proof -
  have h: "layers example_one = [\<lparr>values_of = [Num 5, Num 5, Num 5], bar_args = ()\<rparr>]"
    "length [Num 1, Num 1, Num 1] = segment_count example_one"
    by (simp_all add: example_one_eq)
  have i: "2 < segment_count example_one" "total_segments example_one ! 2"
    "Suc 0 < segment_count example_one" "\<not> total_segments example_one ! Suc 0"
    "0 < segment_count example_one"
    by (simp_all add: example_one_eq)
  have v: "bottoms example_one ! 0 = [0, 5, 0]" "bottoms example_under ! 1 = [1, 7, 1]"
    by (simp_all add: example_one_eq example_under_eq bottoms_def)
  note r = bottom_insertion[OF chart_example_one h example_under_add]
  have a: "layers example_under =
     [\<lparr>values_of = [Num 1, Num 1, Num 1], bar_args = ()\<rparr>,
      \<lparr>values_of = [Num 5, Num 5, Num 5], bar_args = ()\<rparr>]"
    using r by blast
  have "tops_before example_under 1 = nan_to_num [Num 1, Num 1, Num 1]"
    using r by blast
  then have t: "tops_before example_under 1 = [1, 1, 1]"
    by (simp add: nan_to_num_def)
  have "bottoms example_one ! 0 ! 2 = 0 \<and>
      bottoms example_under ! 1 ! 2 = nan_to_num1 ([Num 1, Num 1, Num 1] ! 2)"
    using r i(1,2) by blast
  then have b: "bottoms example_one ! 0 ! 2 = 0" "bottoms example_under ! 1 ! 2 = 1"
    by simp_all
  have "bottoms example_one ! 0 ! 0 = 0 \<and>
      bottoms example_under ! 1 ! 0 = nan_to_num1 ([Num 1, Num 1, Num 1] ! 0)"
    using r i(5) by blast
  then have b0: "bottoms example_under ! 1 ! 0 = 1"
    by simp
  have "bottoms example_under ! 1 ! Suc 0 =
      bottoms example_under ! 1 ! 0 +
        (nan_to_num1 ([Num 1, Num 1, Num 1] ! Suc 0) +
         nan_to_num1 (values_of \<lparr>values_of = [Num 5, Num 5, Num 5], bar_args = ()\<rparr> ! 0))"
    using r i(3,4) by blast
  then have s: "bottoms example_under ! 1 ! Suc 0 = 1 + (1 + 5)"
    using b0 by simp
  show ?thesis
    using chart_example_one h example_under_add a t i(1-4) b b0 s v by (simp only: simp_thms)
qed

text \<open>
  Claim C7 as stated: a layer of zeros put under the layer of fives leaves the bottoms
  of the layer of fives as they were, (0, 5, 0).
\<close>

theorem bottom_insertion_unchanged:
  "chart example_one \<and>
   layers example_one = [\<lparr>values_of = [Num 5, Num 5, Num 5], bar_args = ()\<rparr>] \<and>
   add_layer example_one [Num 0, Num 0, Num 0] True () = (None, example_flat) \<and>
   layers example_flat =
     [\<lparr>values_of = [Num 0, Num 0, Num 0], bar_args = ()\<rparr>,
      \<lparr>values_of = [Num 5, Num 5, Num 5], bar_args = ()\<rparr>] \<and>
   bottoms example_one ! 0 = [0, 5, 0] \<and>
   bottoms example_flat ! 1 = [0, 5, 0] \<and>
   \<not> bottoms example_flat ! 1 \<noteq> bottoms example_one ! 0"
  using chart_example_one example_flat_add
  by (simp add: example_one_eq example_flat_eq bottoms_def)

end
